theory Spec2Isabelle
  imports Complex_Main "HOL-Library.Word"
begin

section \<open>Identities, hashes and errors\<close>

text \<open>
  \<^verbatim>\<open>chainhash.Hash\<close> and \<^verbatim>\<open>ids.ID\<close> are both \<^verbatim>\<open>[32]byte\<close>: a fixed block of 256
  bits, compared by value. \<^verbatim>\<open>ids.Empty\<close> is the all-zero identity. A Go pointer that may be
  nil is an \<open>option\<close>.
\<close>

type_synonym Hash = "256 word"
type_synonym ID = "256 word"
type_synonym byte = "8 word"

definition ids_Empty :: ID where
  "ids_Empty = 0"

text \<open>
  Go errors. \<open>Errorf\<close> is a fresh \<^verbatim>\<open>fmt.Errorf\<close> message, \<open>Wrap\<close> is
  \<^verbatim>\<open>fmt.Errorf("...: %w", err)\<close>, and \<open>External\<close> is an opaque error value handed back
  by the ledger engine or the wire codec.
\<close>

datatype error = Errorf string | Wrap string error | External nat

text \<open>A run-time panic of the Go program.\<close>

datatype panic = NilPointerDereference

section \<open>The gossip wrapper (gossip\_wrapper.go, gossip\_item.go)\<close>

type_synonym GossipItemType = byte

definition GossipItemTypeTx :: GossipItemType where
  "GossipItemTypeTx = 0x01"

definition GossipItemTypeBlock :: GossipItemType where
  "GossipItemTypeBlock = 0x02"

text \<open>
  \<^verbatim>\<open>BTCGossip\<close>: the tag and the two payload pointers. The payload types
  \<^verbatim>\<open>btcutil.Tx\<close> and \<^verbatim>\<open>btcutil.Block\<close> belong to the ledger engine; they are type
  parameters here, and their \<^verbatim>\<open>Hash()\<close> methods are passed as functions.
\<close>

record ('tx, 'blk) BTCGossip =
  ItemType :: GossipItemType
  Tx :: "'tx option"
  Block :: "'blk option"

definition hashToID :: "Hash option \<Rightarrow> ID" where
  "hashToID hash = (case hash of None \<Rightarrow> ids_Empty | Some h \<Rightarrow> h)"

text \<open>
  \<^verbatim>\<open>GossipID\<close> has a pointer receiver: reading \<^verbatim>\<open>g.ItemType\<close> through a nil receiver
  panics. On a wrapper value the switch falls through to \<^verbatim>\<open>ids.Empty\<close>.
\<close>

definition GossipID ::
  "('tx \<Rightarrow> Hash) \<Rightarrow> ('blk \<Rightarrow> Hash) \<Rightarrow> ('tx, 'blk) BTCGossip option \<Rightarrow> panic + ID" where
  "GossipID txHash blockHash gp =
     (case gp of
        None \<Rightarrow> Inl NilPointerDereference
      | Some g \<Rightarrow>
          Inr (if ItemType g = GossipItemTypeTx then
                 (case Tx g of Some t \<Rightarrow> hashToID (Some (txHash t)) | None \<Rightarrow> ids_Empty)
               else if ItemType g = GossipItemTypeBlock then
                 (case Block g of Some b \<Rightarrow> hashToID (Some (blockHash b)) | None \<Rightarrow> ids_Empty)
               else ids_Empty))"

definition NewTxGossip :: "'tx option \<Rightarrow> ('tx, 'blk) BTCGossip" where
  "NewTxGossip tx = \<lparr>ItemType = GossipItemTypeTx, Tx = tx, Block = None\<rparr>"

definition NewBlockGossip :: "'blk option \<Rightarrow> ('tx, 'blk) BTCGossip" where
  "NewBlockGossip block = \<lparr>ItemType = GossipItemTypeBlock, Tx = None, Block = block\<rparr>"

section \<open>Time (the Go standard library's time.Time and time.Duration)\<close>

text \<open>
  A \<^verbatim>\<open>time.Time\<close> is an instant, counted here in nanoseconds from Go's zero time, so that
  \<^verbatim>\<open>IsZero\<close> is equality with 0. A \<^verbatim>\<open>time.Duration\<close> is an \<^verbatim>\<open>int64\<close> count of
  nanoseconds; \<^verbatim>\<open>Time.Sub\<close> does not wrap but saturates at the two ends of that range.
\<close>

type_synonym Time = int
type_synonym Duration = int

definition Millisecond :: Duration where
  "Millisecond = 1000000"

definition Second :: Duration where
  "Second = 1000 * Millisecond"

definition minDuration :: Duration where
  "minDuration = - (2 ^ 63)"

definition maxDuration :: Duration where
  "maxDuration = 2 ^ 63 - 1"

definition Time_IsZero :: "Time \<Rightarrow> bool" where
  "Time_IsZero t = (t = 0)"

definition Time_Add :: "Time \<Rightarrow> Duration \<Rightarrow> Time" where
  "Time_Add t d = t + d"

definition Time_Sub :: "Time \<Rightarrow> Time \<Rightarrow> Duration" where
  "Time_Sub t u =
     (let d = t - u in
      if d < minDuration then minDuration
      else if maxDuration < d then maxDuration
      else d)"

section \<open>The block builder\<close>

definition TargetBlockTime :: Duration where
  "TargetBlockTime = 2 * Second"

definition RetryDelay :: Duration where
  "RetryDelay = 100 * Millisecond"

text \<open>The state fields of \<^verbatim>\<open>blockBuilder\<close>; the locks are modelled by atomic steps.\<close>

record blockBuilder =
  hasPendingTxs :: bool
  lastBuildTime :: Time
  lastBuildParentHash :: Hash

definition Hash_IsEqual :: "Hash \<Rightarrow> Hash \<Rightarrow> bool" where
  "Hash_IsEqual h target = (h = target)"

text \<open>
  \<^verbatim>\<open>calculateBuildingDelay\<close>; the reading of \<^verbatim>\<open>time.Now()\<close> is the argument \<open>now\<close>.
\<close>

definition calculateBuildingDelay :: "Time \<Rightarrow> blockBuilder \<Rightarrow> Hash \<Rightarrow> Duration" where
  "calculateBuildingDelay now b currentBlockHash =
     (if Time_IsZero (lastBuildTime b) then 0
      else
        let isRetry = Hash_IsEqual (lastBuildParentHash b) currentBlockHash;
            nextBuildTime =
              (if isRetry then Time_Add (lastBuildTime b) RetryDelay
               else Time_Add (lastBuildTime b) TargetBlockTime);
            remainingDelay = Time_Sub nextBuildTime now
        in if remainingDelay < 0 then 0 else remainingDelay)"

text \<open>
  What a call leaves behind besides the new field values: a broadcast on the condition
  variable, and the goroutine started by \<^verbatim>\<open>go b.scheduleBlockBuild()\<close>.
\<close>

datatype builder_action = Broadcast_pendingSignal | Go_scheduleBlockBuild

text \<open>
  \<^verbatim>\<open>signalCanBuild\<close>: the flag is read and set inside one critical section of \<^verbatim>\<open>b.lock\<close>,
  which is one atomic step here.
\<close>

definition signalCanBuild :: "blockBuilder \<Rightarrow> blockBuilder \<times> builder_action list" where
  "signalCanBuild b =
     (let alreadyPending = hasPendingTxs b;
          b' = b\<lparr>hasPendingTxs := True\<rparr>
      in if alreadyPending then (b', [])
         else (b', [Broadcast_pendingSignal, Go_scheduleBlockBuild]))"

text \<open>
  \<^verbatim>\<open>awaitTxSubmissions\<close>: the listener loop, run on the events its \<^verbatim>\<open>select\<close> receives.
  With nothing left to receive it is blocked; on shutdown it returns.
\<close>

datatype chan_event = TxSubmit | Shutdown

fun awaitTxSubmissions ::
  "chan_event list \<Rightarrow> blockBuilder \<Rightarrow> blockBuilder \<times> builder_action list" where
  "awaitTxSubmissions [] b = (b, [])"
| "awaitTxSubmissions (Shutdown # es) b = (b, [])"
| "awaitTxSubmissions (TxSubmit # es) b =
     (let (b1, a1) = signalCanBuild b;
          (b2, a2) = awaitTxSubmissions es b1
      in (b2, a1 @ a2))"

text \<open>
  \<^verbatim>\<open>needToBuild\<close> on the mempool's \<^verbatim>\<open>MiningDescs()\<close>; \<open>None\<close> is a nil mempool.
\<close>

definition needToBuild :: "'d list option \<Rightarrow> bool" where
  "needToBuild mempool = (case mempool of None \<Rightarrow> False | Some descs \<Rightarrow> 0 < length descs)"

text \<open>\<^verbatim>\<open>common.Message\<close> values sent to the host engine.\<close>

datatype Message = PendingTxs

text \<open>
  What one run of \<^verbatim>\<open>scheduleBlockBuild\<close> meets: the result of \<^verbatim>\<open>vm.getCurrentBlock()\<close>
  (the hash of the best block, or an error), the clock, which case of the \<^verbatim>\<open>select\<close> on
  the timer fires, the mempool at the re-check, and whether the \<^verbatim>\<open>toEngine\<close> channel
  takes the message.
\<close>

record 'd sched_env =
  currentBlock :: "error + Hash"
  clock :: Time
  shutdownDuringWait :: bool
  mempoolAtRecheck :: "'d list option"
  toEngineReady :: bool

definition scheduleBlockBuild ::
  "'d sched_env \<Rightarrow> blockBuilder \<Rightarrow> blockBuilder \<times> Message list" where
  "scheduleBlockBuild env b =
     (case currentBlock env of
        Inl err \<Rightarrow> (b\<lparr>hasPendingTxs := False\<rparr>, [])
      | Inr h \<Rightarrow>
          let delay = calculateBuildingDelay (clock env) b h in
          if 0 < delay \<and> shutdownDuringWait env then (b, [])
          else if \<not> needToBuild (mempoolAtRecheck env) then (b\<lparr>hasPendingTxs := False\<rparr>, [])
          else if toEngineReady env then (b, [PendingTxs])
          else (b, []))"

text \<open>
  The messages sent by the goroutines a list of actions starts: each
  \<open>Go_scheduleBlockBuild\<close> is one run of \<^verbatim>\<open>scheduleBlockBuild\<close>, in whatever environment
  and builder state \<open>run\<close> gives the task with that number.
\<close>

fun spawned_notifications ::
  "(nat \<Rightarrow> 'd sched_env \<times> blockBuilder) \<Rightarrow> builder_action list \<Rightarrow> Message list" where
  "spawned_notifications run [] = []"
| "spawned_notifications run (Broadcast_pendingSignal # as) = spawned_notifications run as"
| "spawned_notifications run (Go_scheduleBlockBuild # as) =
     snd (scheduleBlockBuild (fst (run (length as))) (snd (run (length as))))
       @ spawned_notifications run as"

text \<open>
  \<^verbatim>\<open>handleBuildAttempt\<close>; \<open>now\<close> is the reading of \<^verbatim>\<open>time.Now()\<close> and \<open>mempool\<close> is what
  \<^verbatim>\<open>needToBuild\<close> finds after the attempt.
\<close>

definition handleBuildAttempt ::
  "Time \<Rightarrow> 'd list option \<Rightarrow> Hash \<Rightarrow> blockBuilder \<Rightarrow> blockBuilder \<times> builder_action list" where
  "handleBuildAttempt now mempool parentHash b =
     (let b1 = b\<lparr>lastBuildTime := now, lastBuildParentHash := parentHash\<rparr>;
          b2 = b1\<lparr>hasPendingTxs := False\<rparr>
      in if needToBuild mempool then signalCanBuild b2 else (b2, []))"

section \<open>The ledger engine and the VM\<close>

text \<open>
  \<^verbatim>\<open>mempool.TxDesc\<close>: only its \<^verbatim>\<open>Tx\<close> pointer is read by this subsystem.
\<close>

datatype 'tx TxDesc = TxDesc (desc_Tx: "'tx option")

text \<open>
  The embedded ledger engine (mempool and chain of the btcd packages) is an external
  collaborator: its state is the type \<open>'e\<close> and its operations are the fields of this
  record. An operation that changes the engine returns the new engine state.
\<close>

record ('e, 'tx, 'blk) Ledger =
  TxHash :: "'tx \<Rightarrow> Hash"
  BlockHash :: "'blk \<Rightarrow> Hash"
  HaveTransaction :: "'e \<Rightarrow> Hash \<Rightarrow> bool"
  ProcessTransaction :: "'e \<Rightarrow> 'tx \<Rightarrow> (error + 'tx TxDesc list) \<times> 'e"
  HaveBlock :: "'e \<Rightarrow> Hash \<Rightarrow> error + bool"
  ProcessBlock :: "'e \<Rightarrow> 'blk \<Rightarrow> (error + bool \<times> bool) \<times> 'e"
  TxDescs :: "'e \<Rightarrow> 'tx TxDesc list"

text \<open>
  The fields of \<^verbatim>\<open>VM\<close> (and of its \<^verbatim>\<open>UnifiedBTCSet\<close>) that the modelled functions touch.
  \<open>bloom\<close> is the set's bloom filter, as the identities added to it; \<open>OnTxRelay\<close> says
  whether the relay callback of \<^verbatim>\<open>Initialize\<close> is installed (non-nil); \<open>pushGossiper\<close>
  is nil or the items handed to \<^verbatim>\<open>PushGossiper.Add\<close> so far; \<open>toEngine\<close> is what was
  sent to the host engine.
\<close>

record ('e, 'tx, 'blk) VM =
  ledger :: 'e
  bloom :: "ID list"
  OnTxRelay :: bool
  pushGossiper :: "('tx, 'blk) BTCGossip list option"
  preferred :: ID
  lastAccepted :: ID
  blockBuilder :: "blockBuilder option"
  toEngine :: "Message list"

section \<open>The block adapter (block\_adapter.go)\<close>

record 'blk BlockAdapter =
  btcBlock :: "'blk option"
  id' :: ID
  parentID :: ID
  height :: "64 word"
  timestamp :: Time
  bytes :: "byte list"

text \<open>
  The statements of \<^verbatim>\<open>Accept\<close> in program order; the deferred unlock runs at the return.
\<close>

datatype vm_step = Lock_blocksMu | Unlock_blocksMu | Store_lastAccepted ID | Store_preferred ID

fun vm_exec :: "('e, 'tx, 'blk) VM \<Rightarrow> vm_step \<Rightarrow> ('e, 'tx, 'blk) VM" where
  "vm_exec v Lock_blocksMu = v"
| "vm_exec v Unlock_blocksMu = v"
| "vm_exec v (Store_lastAccepted i) = v\<lparr>lastAccepted := i\<rparr>"
| "vm_exec v (Store_preferred i) = v\<lparr>preferred := i\<rparr>"

definition Accept_steps :: "'blk BlockAdapter \<Rightarrow> vm_step list" where
  "Accept_steps b =
     [Lock_blocksMu, Store_lastAccepted (id' b), Store_preferred (id' b), Unlock_blocksMu]"

definition Accept ::
  "'blk BlockAdapter \<Rightarrow> ('e, 'tx, 'blk) VM \<Rightarrow> error option \<times> ('e, 'tx, 'blk) VM" where
  "Accept b v = (None, foldl vm_exec v (Accept_steps b))"

text \<open>
  A run of steps keeps the lock discipline when every store happens while the lock is
  held, the lock is never taken twice, and it is free again at the end.
\<close>

fun lock_discipline :: "bool \<Rightarrow> vm_step list \<Rightarrow> bool" where
  "lock_discipline held [] = (\<not> held)"
| "lock_discipline held (Lock_blocksMu # steps) = (\<not> held \<and> lock_discipline True steps)"
| "lock_discipline held (Unlock_blocksMu # steps) = (held \<and> lock_discipline False steps)"
| "lock_discipline held (Store_lastAccepted i # steps) = (held \<and> lock_discipline held steps)"
| "lock_discipline held (Store_preferred i # steps) = (held \<and> lock_discipline held steps)"

section \<open>The gossip codec and the gossip set (gossip.go)\<close>

text \<open>
  The wire encoding of the payloads (\<^verbatim>\<open>BtcEncode\<close> and \<^verbatim>\<open>BtcDecode\<close> of
  \<^verbatim>\<open>wire.MsgTx\<close> and \<^verbatim>\<open>wire.MsgBlock\<close>, with the wrapping by \<^verbatim>\<open>btcutil.NewTx\<close> and
  \<^verbatim>\<open>btcutil.NewBlock\<close>) belongs to the ledger engine and is a parameter. An encoder
  returns the bytes it appends to the buffer, a decoder reads a message from the front of
  the bytes it is given.
\<close>

record ('tx, 'blk) WireCodec =
  TxEncode :: "'tx \<Rightarrow> error + byte list"
  TxDecode :: "byte list \<Rightarrow> error + 'tx"
  BlockEncode :: "'blk \<Rightarrow> error + byte list"
  BlockDecode :: "byte list \<Rightarrow> error + 'blk"

definition MarshalGossip ::
  "('tx, 'blk) WireCodec \<Rightarrow> ('tx, 'blk) BTCGossip option \<Rightarrow> error + byte list" where
  "MarshalGossip W item =
     (case item of
        None \<Rightarrow> Inl (Errorf ''nil gossip item'')
      | Some it \<Rightarrow>
          if ItemType it = GossipItemTypeTx then
            (case Tx it of
               None \<Rightarrow> Inl (Errorf ''nil transaction in gossip item'')
             | Some tx \<Rightarrow>
                 (case TxEncode W tx of
                    Inl err \<Rightarrow> Inl (Wrap ''failed to encode tx'' err)
                  | Inr payload \<Rightarrow> Inr (ItemType it # payload)))
          else if ItemType it = GossipItemTypeBlock then
            (case Block it of
               None \<Rightarrow> Inl (Errorf ''nil block in gossip item'')
             | Some blk \<Rightarrow>
                 (case BlockEncode W blk of
                    Inl err \<Rightarrow> Inl (Wrap ''failed to encode block'' err)
                  | Inr payload \<Rightarrow> Inr (ItemType it # payload)))
          else Inl (Errorf ''unknown gossip item type''))"

definition UnmarshalGossip ::
  "('tx, 'blk) WireCodec \<Rightarrow> byte list \<Rightarrow> error + ('tx, 'blk) BTCGossip" where
  "UnmarshalGossip W data =
     (case data of
        [] \<Rightarrow> Inl (Errorf ''empty gossip data'')
      | itemType # rest \<Rightarrow>
          if itemType = GossipItemTypeTx then
            (case TxDecode W rest of
               Inl err \<Rightarrow> Inl (Wrap ''failed to decode tx'' err)
             | Inr tx \<Rightarrow> Inr \<lparr>ItemType = itemType, Tx = Some tx, Block = None\<rparr>)
          else if itemType = GossipItemTypeBlock then
            (case BlockDecode W rest of
               Inl err \<Rightarrow> Inl (Wrap ''failed to decode block'' err)
             | Inr blk \<Rightarrow> Inr \<lparr>ItemType = itemType, Tx = None, Block = Some blk\<rparr>)
          else Inl (Errorf ''unknown gossip item type''))"

text \<open>
  \<^verbatim>\<open>gossip.BloomFilter.Add\<close> of the host library puts the item's \<^verbatim>\<open>GossipID\<close> into the
  filter.
\<close>

definition BloomFilter_Add ::
  "('e, 'tx, 'blk) Ledger \<Rightarrow> ('tx, 'blk) BTCGossip \<Rightarrow> ID list \<Rightarrow> ID list" where
  "BloomFilter_Add L item added =
     (case GossipID (TxHash L) (BlockHash L) (Some item) of
        Inl p \<Rightarrow> added
      | Inr h \<Rightarrow> added @ [h])"

text \<open>
  The closure that \<^verbatim>\<open>Initialize\<close> stores in \<^verbatim>\<open>btcdAdapter.OnTxRelay\<close>: if there is a
  push gossiper, every transaction of the list is wrapped and handed to it, and then its
  hash is logged. The log call evaluates \<^verbatim>\<open>txD.Tx.Hash()\<close>, which dereferences the
  transaction pointer: on a descriptor whose \<^verbatim>\<open>Tx\<close> is nil the closure panics there,
  after the item was queued.
\<close>

fun OnTxRelay_closure ::
  "'tx TxDesc list \<Rightarrow> ('e, 'tx, 'blk) VM \<Rightarrow> panic + ('e, 'tx, 'blk) VM" where
  "OnTxRelay_closure [] v = Inr v"
| "OnTxRelay_closure (txD # txns) v =
     (case pushGossiper v of
        None \<Rightarrow> OnTxRelay_closure txns v
      | Some queue \<Rightarrow>
          let item = NewTxGossip (desc_Tx txD);
              v' = v\<lparr>pushGossiper := Some (queue @ [item])\<rparr>
          in (case desc_Tx txD of
                None \<Rightarrow> Inl NilPointerDereference
              | Some tx \<Rightarrow> OnTxRelay_closure txns v'))"

text \<open>
  \<^verbatim>\<open>UnifiedBTCSet.Add\<close>: a panic, or the returned error (\<open>None\<close> is nil) with the state
  it leaves.
\<close>

definition Add ::
  "('e, 'tx, 'blk) Ledger \<Rightarrow> ('tx, 'blk) BTCGossip option \<Rightarrow> ('e, 'tx, 'blk) VM \<Rightarrow>
     panic + error option \<times> ('e, 'tx, 'blk) VM" where
  "Add L item v =
     (case item of
        None \<Rightarrow> Inr (Some (Errorf ''nil gossip item''), v)
      | Some it \<Rightarrow>
          if ItemType it = GossipItemTypeTx then
            (case Tx it of
               None \<Rightarrow> Inr (Some (Errorf ''nil transaction in gossip item''), v)
             | Some tx \<Rightarrow>
                 let txHash = TxHash L tx in
                 if HaveTransaction L (ledger v) txHash then
                   Inr (None, v\<lparr>bloom := BloomFilter_Add L it (bloom v)\<rparr>)
                 else
                   (case ProcessTransaction L (ledger v) tx of
                      (Inl err, e') \<Rightarrow> Inr (Some err, v\<lparr>ledger := e'\<rparr>)
                    | (Inr acceptedTxs, e') \<Rightarrow>
                        let v1 = v\<lparr>ledger := e', bloom := BloomFilter_Add L it (bloom v)\<rparr> in
                        if 0 < length acceptedTxs \<and> OnTxRelay v1
                        then (case OnTxRelay_closure acceptedTxs v1 of
                                Inl p \<Rightarrow> Inl p
                              | Inr v2 \<Rightarrow> Inr (None, v2))
                        else Inr (None, v1)))
          else if ItemType it = GossipItemTypeBlock then
            (case Block it of
               None \<Rightarrow> Inr (Some (Errorf ''nil block in gossip item''), v)
             | Some blk \<Rightarrow>
                 let blockHash = BlockHash L blk in
                 (case HaveBlock L (ledger v) blockHash of
                    Inl err \<Rightarrow> Inr (Some err, v)
                  | Inr hasBlock \<Rightarrow>
                      if hasBlock then Inr (None, v\<lparr>bloom := BloomFilter_Add L it (bloom v)\<rparr>)
                      else
                        (case ProcessBlock L (ledger v) blk of
                           (outcome, e') \<Rightarrow>
                             Inr (None, v\<lparr>ledger := e', bloom := BloomFilter_Add L it (bloom v)\<rparr>))))
          else Inr (Some (Errorf ''unknown gossip item type''), v))"

text \<open>
  \<^verbatim>\<open>Iterate\<close>: the callback is a Go closure, so it carries a state of its own. The result
  is the list of calls made, each item with the callback's answer, and the callback's
  final state.
\<close>

fun Iterate_loop ::
  "(('tx, 'blk) BTCGossip \<Rightarrow> 'st \<Rightarrow> bool \<times> 'st) \<Rightarrow> 'tx TxDesc list \<Rightarrow> 'st \<Rightarrow>
     (('tx, 'blk) BTCGossip \<times> bool) list \<times> 'st" where
  "Iterate_loop f [] st = ([], st)"
| "Iterate_loop f (desc # descs) st =
     (let item = \<lparr>ItemType = GossipItemTypeTx, Tx = desc_Tx desc, Block = None\<rparr>;
          (continue, st') = f item st
      in if \<not> continue then ([(item, continue)], st')
         else (let (visited, st'') = Iterate_loop f descs st'
               in ((item, continue) # visited, st'')))"

definition Iterate ::
  "('e, 'tx, 'blk) Ledger \<Rightarrow> ('e, 'tx, 'blk) VM \<Rightarrow>
   (('tx, 'blk) BTCGossip \<Rightarrow> 'st \<Rightarrow> bool \<times> 'st) \<Rightarrow> 'st \<Rightarrow>
     (('tx, 'blk) BTCGossip \<times> bool) list \<times> 'st" where
  "Iterate L v f st = Iterate_loop f (TxDescs L (ledger v)) st"

text \<open>
  To speak of what the callback does during an iteration over \<open>descs\<close>:
  \<open>callbackState f descs st i\<close> is the callback's state after it was called, in order, on
  the first \<open>i\<close> transactions of the list, starting in \<open>st\<close>; \<open>callbackAnswer f descs st i\<close>
  is what it answers when it is then called on transaction \<open>i\<close>.
\<close>

definition callbackState ::
  "(('tx, 'blk) BTCGossip \<Rightarrow> 'st \<Rightarrow> bool \<times> 'st) \<Rightarrow> 'tx TxDesc list \<Rightarrow> 'st \<Rightarrow> nat \<Rightarrow> 'st" where
  "callbackState f descs st i =
     foldl (\<lambda>s desc. snd (f (NewTxGossip (desc_Tx desc)) s)) st (take i descs)"

definition callbackAnswer ::
  "(('tx, 'blk) BTCGossip \<Rightarrow> 'st \<Rightarrow> bool \<times> 'st) \<Rightarrow> 'tx TxDesc list \<Rightarrow> 'st \<Rightarrow> nat \<Rightarrow> bool" where
  "callbackAnswer f descs st i =
     fst (f (NewTxGossip (desc_Tx (descs ! i))) (callbackState f descs st i))"

section \<open>The gossip configuration (gossip\_item.go)\<close>

text \<open>
  A \<^verbatim>\<open>float64\<close> is a finite number, an infinity or a NaN. The comparisons are those of
  IEEE 754: every comparison with a NaN is false. (The two zeros compare equal and are one
  value here.)
\<close>

datatype float64 = Finite real | PosInf | NegInf | NaN

fun f64_lt :: "float64 \<Rightarrow> float64 \<Rightarrow> bool" where
  "f64_lt NaN y = False"
| "f64_lt x NaN = False"
| "f64_lt (Finite a) (Finite b) = (a < b)"
| "f64_lt x NegInf = False"
| "f64_lt NegInf y = True"
| "f64_lt PosInf y = False"
| "f64_lt x PosInf = True"

fun f64_le :: "float64 \<Rightarrow> float64 \<Rightarrow> bool" where
  "f64_le NaN y = False"
| "f64_le x NaN = False"
| "f64_le (Finite a) (Finite b) = (a \<le> b)"
| "f64_le NegInf y = True"
| "f64_le x PosInf = True"
| "f64_le x NegInf = False"
| "f64_le PosInf y = False"

definition f64_gt :: "float64 \<Rightarrow> float64 \<Rightarrow> bool" where
  "f64_gt x y = f64_lt y x"

definition f64_ge :: "float64 \<Rightarrow> float64 \<Rightarrow> bool" where
  "f64_ge x y = f64_le y x"

text \<open>Go's \<^verbatim>\<open>int\<close> and \<^verbatim>\<open>time.Duration\<close> fields are only compared with 0.\<close>

record GossipConfig =
  PushGossipPercentStake :: float64
  PushGossipNumValidators :: int
  PushGossipNumPeers :: int
  PushGossipFrequency :: Duration
  PullGossipFrequency :: Duration
  PushRegossipNumValidators :: int
  PushRegossipNumPeers :: int
  RegossipFrequency :: Duration
  BloomFilterSize :: int
  BloomFalsePositiveRate :: float64
  BloomResetThreshold :: float64

text \<open>
  The float literals are the \<^verbatim>\<open>float64\<close> values nearest to 0.9, 0.01 and 0.05.
\<close>

definition DefaultGossipConfig :: GossipConfig where
  "DefaultGossipConfig =
     \<lparr>PushGossipPercentStake = Finite (8106479329266893 / 2 ^ 53),
      PushGossipNumValidators = 100,
      PushGossipNumPeers = 0,
      PushGossipFrequency = 100 * Millisecond,
      PullGossipFrequency = 1 * Second,
      PushRegossipNumValidators = 10,
      PushRegossipNumPeers = 0,
      RegossipFrequency = 30 * Second,
      BloomFilterSize = 8192,
      BloomFalsePositiveRate = Finite (5764607523034235 / 2 ^ 59),
      BloomResetThreshold = Finite (3602879701896397 / 2 ^ 56)\<rparr>"

definition Validate :: "GossipConfig \<Rightarrow> error option" where
  "Validate c =
     (if f64_lt (PushGossipPercentStake c) (Finite 0) \<or> f64_gt (PushGossipPercentStake c) (Finite 1)
      then Some (Errorf ''push gossip percent stake must be between 0 and 1'')
      else if PushGossipNumValidators c < 0
      then Some (Errorf ''push gossip num validators must be non-negative'')
      else if PushGossipNumPeers c < 0
      then Some (Errorf ''push gossip num peers must be non-negative'')
      else if PushGossipFrequency c \<le> 0
      then Some (Errorf ''push gossip frequency must be positive'')
      else if PullGossipFrequency c \<le> 0
      then Some (Errorf ''pull gossip frequency must be positive'')
      else if PushRegossipNumValidators c < 0
      then Some (Errorf ''push regossip num validators must be non-negative'')
      else if PushRegossipNumPeers c < 0
      then Some (Errorf ''push regossip num peers must be non-negative'')
      else if RegossipFrequency c \<le> 0
      then Some (Errorf ''regossip frequency must be positive'')
      else if BloomFilterSize c \<le> 0
      then Some (Errorf ''bloom filter size must be positive'')
      else if f64_le (BloomFalsePositiveRate c) (Finite 0) \<or> f64_ge (BloomFalsePositiveRate c) (Finite 1)
      then Some (Errorf ''bloom false positive rate must be between 0 and 1'')
      else if f64_le (BloomResetThreshold c) (Finite 0) \<or> f64_ge (BloomResetThreshold c) (Finite 1)
      then Some (Errorf ''bloom reset threshold must be between 0 and 1'')
      else None)"

text \<open>
  The constraints on a configuration as the specification words them: the stake fraction
  lies in the closed interval from 0 to 1, the counts are not negative, the frequencies and
  the filter size are positive, and the two filter rates lie strictly between 0 and 1.
\<close>

definition in_closed_unit :: "float64 \<Rightarrow> bool" where
  "in_closed_unit x = (f64_le (Finite 0) x \<and> f64_le x (Finite 1))"

definition in_open_unit :: "float64 \<Rightarrow> bool" where
  "in_open_unit x = (f64_lt (Finite 0) x \<and> f64_lt x (Finite 1))"

definition constraints_hold :: "GossipConfig \<Rightarrow> bool" where
  "constraints_hold c =
     (in_closed_unit (PushGossipPercentStake c) \<and>
      0 \<le> PushGossipNumValidators c \<and> 0 \<le> PushGossipNumPeers c \<and>
      0 \<le> PushRegossipNumValidators c \<and> 0 \<le> PushRegossipNumPeers c \<and>
      0 < PushGossipFrequency c \<and> 0 < PullGossipFrequency c \<and> 0 < RegossipFrequency c \<and>
      0 < BloomFilterSize c \<and>
      in_open_unit (BloomFalsePositiveRate c) \<and> in_open_unit (BloomResetThreshold c))"

definition no_NaN :: "GossipConfig \<Rightarrow> bool" where
  "no_NaN c =
     (PushGossipPercentStake c \<noteq> NaN \<and> BloomFalsePositiveRate c \<noteq> NaN \<and>
      BloomResetThreshold c \<noteq> NaN)"

text \<open>
  The violations as the comparisons that the claim lists, one disjunct for each.
\<close>

definition violated :: "GossipConfig \<Rightarrow> bool" where
  "violated c =
     (f64_lt (PushGossipPercentStake c) (Finite 0) \<or> f64_gt (PushGossipPercentStake c) (Finite 1) \<or>
      PushGossipNumValidators c < 0 \<or> PushGossipNumPeers c < 0 \<or>
      PushRegossipNumValidators c < 0 \<or> PushRegossipNumPeers c < 0 \<or>
      PushGossipFrequency c \<le> 0 \<or> PullGossipFrequency c \<le> 0 \<or> RegossipFrequency c \<le> 0 \<or>
      BloomFilterSize c \<le> 0 \<or>
      f64_le (BloomFalsePositiveRate c) (Finite 0) \<or> f64_ge (BloomFalsePositiveRate c) (Finite 1) \<or>
      f64_le (BloomResetThreshold c) (Finite 0) \<or> f64_ge (BloomResetThreshold c) (Finite 1))"

section \<open>A small ledger engine for running the model\<close>

text \<open>
  To run the functions above on concrete inputs: a transaction or a block is its own hash;
  the engine's state is the mempool and the chain, as lists of hashes. This engine rejects
  transaction 0, accepts any other one and reports it as the one newly accepted
  transaction; its block lookup fails on the zero hash; it fails to process block 13 and
  connects any other block.
\<close>

definition demoLedger :: "(Hash list \<times> Hash list, Hash, Hash) Ledger" where
  "demoLedger =
     \<lparr>TxHash = (\<lambda>t. t),
      BlockHash = (\<lambda>b. b),
      HaveTransaction = (\<lambda>e h. h \<in> set (fst e)),
      ProcessTransaction =
        (\<lambda>e t. if t = 0 then (Inl (External 1), e)
                else (Inr [TxDesc (Some t)], (fst e @ [t], snd e))),
      HaveBlock = (\<lambda>e h. if h = 0 then Inl (External 2) else Inr (h \<in> set (snd e))),
      ProcessBlock =
        (\<lambda>e b. if b = 13 then (Inl (External 3), e)
                else (Inr (True, False), (fst e, snd e @ [b]))),
      TxDescs = (\<lambda>e. map (\<lambda>t. TxDesc (Some t)) (fst e))\<rparr>"

text \<open>
  The same engine, except that the descriptor it reports for an accepted transaction has
  a nil \<^verbatim>\<open>Tx\<close>.
\<close>

definition nilDescLedger :: "(Hash list \<times> Hash list, Hash, Hash) Ledger" where
  "nilDescLedger = demoLedger\<lparr>ProcessTransaction := (\<lambda>e t. (Inr [TxDesc None], e))\<rparr>"

text \<open>A VM whose mempool holds transactions 5, 6 and 7 and whose chain holds block 1.\<close>

definition demoVM :: "(Hash list \<times> Hash list, Hash, Hash) VM" where
  "demoVM =
     \<lparr>ledger = ([5, 6, 7], [1]),
      bloom = [],
      OnTxRelay = True,
      pushGossiper = Some [],
      preferred = 1,
      lastAccepted = 1,
      blockBuilder =
        Some \<lparr>hasPendingTxs = False, lastBuildTime = 0, lastBuildParentHash = 0\<rparr>,
      toEngine = []\<rparr>"

text \<open>
  A wire codec on the same payloads: a payload is written as its lowest byte, and read
  back from the first byte.
\<close>

definition demoCodec :: "(Hash, Hash) WireCodec" where
  "demoCodec =
     \<lparr>TxEncode = (\<lambda>t. Inr [ucast t]),
      TxDecode = (\<lambda>bs. case bs of [] \<Rightarrow> Inl (External 4) | b # rest \<Rightarrow> Inr (ucast b)),
      BlockEncode = (\<lambda>t. Inr [ucast t]),
      BlockDecode = (\<lambda>bs. case bs of [] \<Rightarrow> Inl (External 5) | b # rest \<Rightarrow> Inr (ucast b))\<rparr>"

text \<open>
  A wire codec with the marker rule of a witness encoding. A transaction is its list of
  inputs, one byte each, written as the input count followed by the inputs. Reading back,
  an input count of 0 is taken for the witness marker, which must be followed by the flag
  byte 1: the encoding of a transaction without inputs is not read back.
\<close>

definition markerCodec :: "(byte list, byte list) WireCodec" where
  "markerCodec =
     \<lparr>TxEncode = (\<lambda>ins. Inr (of_nat (length ins) # ins)),
      TxDecode =
        (\<lambda>bs. case bs of
                 [] \<Rightarrow> Inl (External 4)
               | count # rest \<Rightarrow>
                   if count = 0
                   then (if take 1 rest = [1] then Inr (drop 2 rest) else Inl (External 6))
                   else Inr (take (unat count) rest)),
      BlockEncode = (\<lambda>b. Inr b),
      BlockDecode = (\<lambda>bs. Inr bs)\<rparr>"

definition demoEnv :: "Hash sched_env" where
  "demoEnv =
     \<lparr>currentBlock = Inr 1, clock = 5030000000, shutdownDuringWait = False,
      mempoolAtRecheck = Some [5], toEngineReady = True\<rparr>"

section \<open>Properties of the gossip wrapper\<close>

lemma hashToID_Some: "hashToID (Some h) = h"
  by (simp add: hashToID_def)

lemma item_types_distinct: "GossipItemTypeTx \<noteq> GossipItemTypeBlock"
  by (simp add: GossipItemTypeTx_def GossipItemTypeBlock_def)

text \<open>
  Claim C10. On every \<^verbatim>\<open>BTCGossip\<close> value \<^verbatim>\<open>GossipID\<close> returns without a panic: the
  transaction hash when the tag is Tx and the transaction is present, the block hash when
  the tag is Block and the block is present, and \<^verbatim>\<open>ids.Empty\<close> in every other case (the
  tagged payload is nil, or the tag is unknown).
\<close>

theorem GossipID_total:
  "(ItemType g = GossipItemTypeTx \<and> Tx g = Some t \<longrightarrow>
      GossipID txHash blockHash (Some g) = Inr (txHash t)) \<and>
   (ItemType g = GossipItemTypeBlock \<and> Block g = Some b \<longrightarrow>
      GossipID txHash blockHash (Some g) = Inr (blockHash b)) \<and>
   (\<not> (ItemType g = GossipItemTypeTx \<and> Tx g \<noteq> None) \<and>
    \<not> (ItemType g = GossipItemTypeBlock \<and> Block g \<noteq> None) \<longrightarrow>
      GossipID txHash blockHash (Some g) = Inr ids_Empty) \<and>
   (\<exists>i. GossipID txHash blockHash (Some g) = Inr i)"
  by (auto simp: GossipID_def hashToID_Some item_types_distinct split: option.splits)

theorem GossipID_total_witness:
  "GossipID (\<lambda>t. t + 1) (\<lambda>b. b + 2)
     (Some \<lparr>ItemType = GossipItemTypeTx, Tx = Some (7 :: Hash), Block = None :: Hash option\<rparr>) = Inr 8 \<and>
   GossipID (\<lambda>t. t + 1) (\<lambda>b. b + 2)
     (Some \<lparr>ItemType = GossipItemTypeBlock, Tx = None :: Hash option, Block = Some (7 :: Hash)\<rparr>) = Inr 9 \<and>
   GossipID (\<lambda>t. t + 1) (\<lambda>b. b + 2)
     (Some \<lparr>ItemType = GossipItemTypeTx, Tx = None :: Hash option, Block = Some (7 :: Hash)\<rparr>) = Inr ids_Empty \<and>
   GossipID (\<lambda>t. t + 1) (\<lambda>b. b + 2)
     (Some \<lparr>ItemType = 0x07, Tx = Some (7 :: Hash), Block = Some (7 :: Hash)\<rparr>) = Inr ids_Empty"
  using GossipID_total [of "\<lparr>ItemType = GossipItemTypeTx, Tx = Some (7 :: Hash), Block = None :: Hash option\<rparr>"
          7 "\<lambda>t. t + 1" "\<lambda>b. b + 2" 7]
        GossipID_total [of "\<lparr>ItemType = GossipItemTypeBlock, Tx = None :: Hash option, Block = Some (7 :: Hash)\<rparr>"
          7 "\<lambda>t. t + 1" "\<lambda>b. b + 2" 7]
        GossipID_total [of "\<lparr>ItemType = GossipItemTypeTx, Tx = None :: Hash option, Block = Some (7 :: Hash)\<rparr>"
          7 "\<lambda>t. t + 1" "\<lambda>b. b + 2" 7]
        GossipID_total [of "\<lparr>ItemType = 0x07, Tx = Some (7 :: Hash), Block = Some (7 :: Hash)\<rparr>"
          7 "\<lambda>t. t + 1" "\<lambda>b. b + 2" 7]
  by (simp add: GossipItemTypeTx_def GossipItemTypeBlock_def)

section \<open>Properties of the build delay\<close>

lemma durations_ns: "RetryDelay = 100000000" "TargetBlockTime = 2000000000"
  by (simp_all add: RetryDelay_def TargetBlockTime_def Second_def Millisecond_def)

lemma Time_Sub_saturated: "Time_Sub t u = max minDuration (min maxDuration (t - u))"
  by (simp add: Time_Sub_def Let_def minDuration_def maxDuration_def)

lemma calculateBuildingDelay_saturated:
  "lastBuildTime b \<noteq> 0 \<Longrightarrow>
   calculateBuildingDelay now b h =
     max 0 (min maxDuration
       (lastBuildTime b + (if lastBuildParentHash b = h then RetryDelay else TargetBlockTime) - now))"
  by (simp add: calculateBuildingDelay_def Time_IsZero_def Hash_IsEqual_def Time_Add_def
      Time_Sub_saturated Let_def minDuration_def maxDuration_def)

text \<open>
  Claim C1. \<^verbatim>\<open>calculateBuildingDelay\<close> returns 0 when no build attempt was ever recorded
  (\<^verbatim>\<open>lastBuildTime\<close> is the zero time); on a retry against the same parent it returns
  \<open>max(0, lastBuildTime + RetryDelay - now)\<close> with \<open>RetryDelay\<close> = 100 ms; otherwise it
  returns \<open>max(0, lastBuildTime + TargetBlockTime - now)\<close> with \<open>TargetBlockTime\<close> = 2 s;
  and the result is never negative. The two formulas are over instants whose distance a
  \<^verbatim>\<open>time.Duration\<close> can hold (less than about 292 years), which is so for every recorded
  build time that is not in the future of \<open>now\<close>.
\<close>

theorem calculateBuildingDelay_spec:
  "(lastBuildTime b = 0 \<longrightarrow> calculateBuildingDelay now b h = 0) \<and>
   (lastBuildTime b \<noteq> 0 \<and> lastBuildParentHash b = h \<and>
    lastBuildTime b + RetryDelay - now \<le> maxDuration \<longrightarrow>
      calculateBuildingDelay now b h = max 0 (lastBuildTime b + RetryDelay - now)) \<and>
   (lastBuildTime b \<noteq> 0 \<and> lastBuildParentHash b \<noteq> h \<and>
    lastBuildTime b + TargetBlockTime - now \<le> maxDuration \<longrightarrow>
      calculateBuildingDelay now b h = max 0 (lastBuildTime b + TargetBlockTime - now)) \<and>
   0 \<le> calculateBuildingDelay now b h \<and>
   RetryDelay = 100 * 1000000 \<and> TargetBlockTime = 2 * 1000000000"
proof (intro conjI impI)
  show "calculateBuildingDelay now b h = 0" if "lastBuildTime b = 0"
    using that by (simp add: calculateBuildingDelay_def Time_IsZero_def)
  show "calculateBuildingDelay now b h = max 0 (lastBuildTime b + RetryDelay - now)"
    if "lastBuildTime b \<noteq> 0 \<and> lastBuildParentHash b = h \<and>
        lastBuildTime b + RetryDelay - now \<le> maxDuration"
    using that by (simp add: calculateBuildingDelay_saturated min_absorb2)
  show "calculateBuildingDelay now b h = max 0 (lastBuildTime b + TargetBlockTime - now)"
    if "lastBuildTime b \<noteq> 0 \<and> lastBuildParentHash b \<noteq> h \<and>
        lastBuildTime b + TargetBlockTime - now \<le> maxDuration"
    using that by (simp add: calculateBuildingDelay_saturated min_absorb2)
  show "0 \<le> calculateBuildingDelay now b h"
    by (simp add: calculateBuildingDelay_def Let_def)
  show "RetryDelay = 100 * 1000000" and "TargetBlockTime = 2 * 1000000000"
    by (simp_all add: durations_ns)
qed

text \<open>
  The three cases at concrete instants: no build yet; a retry 30 ms after an attempt at
  second 5 against parent 1 (70 ms remain); a new parent at the same instant (1970 ms remain).
\<close>

theorem calculateBuildingDelay_spec_witness:
  "calculateBuildingDelay 5030000000
     \<lparr>hasPendingTxs = True, lastBuildTime = 0, lastBuildParentHash = 1\<rparr> 1 = 0 \<and>
   calculateBuildingDelay 5030000000
     \<lparr>hasPendingTxs = True, lastBuildTime = 5000000000, lastBuildParentHash = 1\<rparr> 1 = 70000000 \<and>
   calculateBuildingDelay 5030000000
     \<lparr>hasPendingTxs = True, lastBuildTime = 5000000000, lastBuildParentHash = 1\<rparr> 2 = 1970000000"
  using calculateBuildingDelay_spec
          [of "\<lparr>hasPendingTxs = True, lastBuildTime = 0, lastBuildParentHash = 1\<rparr>" 5030000000 1]
        calculateBuildingDelay_spec
          [of "\<lparr>hasPendingTxs = True, lastBuildTime = 5000000000, lastBuildParentHash = 1\<rparr>"
              5030000000 1]
        calculateBuildingDelay_spec
          [of "\<lparr>hasPendingTxs = True, lastBuildTime = 5000000000, lastBuildParentHash = 1\<rparr>"
              5030000000 2]
  by (simp add: durations_ns maxDuration_def)

section \<open>Properties of the block builder\<close>

lemma signalCanBuild_idle:
  "\<not> hasPendingTxs b \<Longrightarrow>
   signalCanBuild b =
     (b\<lparr>hasPendingTxs := True\<rparr>, [Broadcast_pendingSignal, Go_scheduleBlockBuild])"
  by (simp add: signalCanBuild_def Let_def)

lemma signalCanBuild_pending: "hasPendingTxs b \<Longrightarrow> signalCanBuild b = (b, [])"
  by (simp add: signalCanBuild_def Let_def)

lemma await_pending:
  "hasPendingTxs b \<Longrightarrow> awaitTxSubmissions (replicate n TxSubmit) b = (b, [])"
  by (induction n) (simp_all add: signalCanBuild_pending)

lemma await_idle:
  "\<not> hasPendingTxs b \<Longrightarrow>
   awaitTxSubmissions (replicate (Suc n) TxSubmit) b =
     (b\<lparr>hasPendingTxs := True\<rparr>, [Broadcast_pendingSignal, Go_scheduleBlockBuild])"
  by (simp add: signalCanBuild_idle await_pending)

lemma scheduleBlockBuild_at_most_one: "length (snd (scheduleBlockBuild env b)) \<le> 1"
  by (simp add: scheduleBlockBuild_def Let_def split: sum.splits)

lemma spawned_notifications_bound:
  "length (spawned_notifications run as) \<le> count_list as Go_scheduleBlockBuild"
proof (induction as)
  case Nil
  then show ?case by simp
next
  case (Cons a as)
  show ?case
  proof (cases a)
    case Broadcast_pendingSignal
    with Cons show ?thesis by simp
  next
    case Go_scheduleBlockBuild
    have "length (snd (scheduleBlockBuild (fst (run (length as))) (snd (run (length as))))) \<le> 1"
      by (rule scheduleBlockBuild_at_most_one)
    with Cons Go_scheduleBlockBuild show ?thesis by simp
  qed
qed

lemma await_spawns_at_most_one:
  "count_list (snd (awaitTxSubmissions (replicate n TxSubmit) b)) Go_scheduleBlockBuild \<le> 1"
proof (cases "hasPendingTxs b")
  case True
  then show ?thesis by (simp add: await_pending)
next
  case False
  show ?thesis
  proof (cases n)
    case 0
    then show ?thesis by simp
  next
    case (Suc m)
    with False show ?thesis by (simp add: await_idle del: replicate.simps)
  qed
qed

text \<open>
  Claim C5. \<^verbatim>\<open>signalCanBuild\<close> sets \<^verbatim>\<open>hasPendingTxs\<close> and starts a scheduling task only
  when the flag was false; called while the flag is set it changes nothing and starts
  nothing. So n signals handled from an idle builder start exactly one task, n signals
  handled while pending start none, and the tasks started by n signals send the host engine
  at most one notification, whatever each task meets when it runs.
\<close>

theorem signalCanBuild_coalesces:
  "(\<not> hasPendingTxs b \<longrightarrow>
      signalCanBuild b =
        (b\<lparr>hasPendingTxs := True\<rparr>, [Broadcast_pendingSignal, Go_scheduleBlockBuild])) \<and>
   (hasPendingTxs b \<longrightarrow> signalCanBuild b = (b, [])) \<and>
   (\<not> hasPendingTxs b \<and> 0 < n \<longrightarrow>
      hasPendingTxs (fst (awaitTxSubmissions (replicate n TxSubmit) b)) \<and>
      count_list (snd (awaitTxSubmissions (replicate n TxSubmit) b)) Go_scheduleBlockBuild = 1) \<and>
   (hasPendingTxs b \<longrightarrow> awaitTxSubmissions (replicate n TxSubmit) b = (b, [])) \<and>
   length (spawned_notifications run (snd (awaitTxSubmissions (replicate n TxSubmit) b))) \<le> 1"
proof (intro conjI impI)
  show "signalCanBuild b =
        (b\<lparr>hasPendingTxs := True\<rparr>, [Broadcast_pendingSignal, Go_scheduleBlockBuild])"
    if "\<not> hasPendingTxs b" using that by (rule signalCanBuild_idle)
  show "signalCanBuild b = (b, [])" if "hasPendingTxs b"
    using that by (rule signalCanBuild_pending)
  show "awaitTxSubmissions (replicate n TxSubmit) b = (b, [])" if "hasPendingTxs b"
    using that by (rule await_pending)
  have idle: "awaitTxSubmissions (replicate n TxSubmit) b =
     (b\<lparr>hasPendingTxs := True\<rparr>, [Broadcast_pendingSignal, Go_scheduleBlockBuild])"
    if "\<not> hasPendingTxs b \<and> 0 < n"
    using that await_idle [of b "n - 1"] by simp
  show "hasPendingTxs (fst (awaitTxSubmissions (replicate n TxSubmit) b))"
    if "\<not> hasPendingTxs b \<and> 0 < n" using idle [OF that] by simp
  show "count_list (snd (awaitTxSubmissions (replicate n TxSubmit) b)) Go_scheduleBlockBuild = 1"
    if "\<not> hasPendingTxs b \<and> 0 < n" using idle [OF that] by simp
  show "length (spawned_notifications run (snd (awaitTxSubmissions (replicate n TxSubmit) b))) \<le> 1"
    using spawned_notifications_bound [of run "snd (awaitTxSubmissions (replicate n TxSubmit) b)"]
      await_spawns_at_most_one [of n b] by linarith
qed

text \<open>Three signals to an idle builder, and three to a builder that is already pending.\<close>

theorem signalCanBuild_coalesces_witness:
  "hasPendingTxs (fst (awaitTxSubmissions (replicate 3 TxSubmit)
      \<lparr>hasPendingTxs = False, lastBuildTime = 0, lastBuildParentHash = 0\<rparr>)) \<and>
   count_list (snd (awaitTxSubmissions (replicate 3 TxSubmit)
      \<lparr>hasPendingTxs = False, lastBuildTime = 0, lastBuildParentHash = 0\<rparr>))
     Go_scheduleBlockBuild = 1 \<and>
   awaitTxSubmissions (replicate 3 TxSubmit)
      \<lparr>hasPendingTxs = True, lastBuildTime = 0, lastBuildParentHash = 0\<rparr> =
     (\<lparr>hasPendingTxs = True, lastBuildTime = 0, lastBuildParentHash = 0\<rparr>, []) \<and>
   length (spawned_notifications
      (\<lambda>k. (demoEnv, \<lparr>hasPendingTxs = True, lastBuildTime = 0, lastBuildParentHash = 0\<rparr>))
      (snd (awaitTxSubmissions (replicate 3 TxSubmit)
         \<lparr>hasPendingTxs = False, lastBuildTime = 0, lastBuildParentHash = 0\<rparr>))) \<le> 1"
  using signalCanBuild_coalesces
          [of "\<lparr>hasPendingTxs = False, lastBuildTime = 0, lastBuildParentHash = 0\<rparr>" 3
              "\<lambda>k. (demoEnv, \<lparr>hasPendingTxs = True, lastBuildTime = 0, lastBuildParentHash = 0\<rparr>)"]
        signalCanBuild_coalesces
          [of "\<lparr>hasPendingTxs = True, lastBuildTime = 0, lastBuildParentHash = 0\<rparr>" 3
              "\<lambda>k. (demoEnv, \<lparr>hasPendingTxs = True, lastBuildTime = 0, lastBuildParentHash = 0\<rparr>)"]
  by simp

text \<open>
  Claim C6. \<^verbatim>\<open>handleBuildAttempt\<close> records the current time and the parent used, clears
  \<^verbatim>\<open>hasPendingTxs\<close>, and then calls \<^verbatim>\<open>signalCanBuild\<close>, which sets the flag again and
  starts a scheduling task, exactly when the mempool still holds transactions after the
  attempt.
\<close>

theorem handleBuildAttempt_spec:
  "lastBuildTime (fst (handleBuildAttempt now mempool parent b)) = now \<and>
   lastBuildParentHash (fst (handleBuildAttempt now mempool parent b)) = parent \<and>
   hasPendingTxs (fst (handleBuildAttempt now mempool parent b)) = needToBuild mempool \<and>
   handleBuildAttempt now mempool parent b =
     (if needToBuild mempool
      then signalCanBuild
             (b\<lparr>lastBuildTime := now, lastBuildParentHash := parent, hasPendingTxs := False\<rparr>)
      else (b\<lparr>lastBuildTime := now, lastBuildParentHash := parent, hasPendingTxs := False\<rparr>, [])) \<and>
   (Go_scheduleBlockBuild \<in> set (snd (handleBuildAttempt now mempool parent b)) \<longleftrightarrow>
      needToBuild mempool) \<and>
   (needToBuild mempool \<longleftrightarrow> (\<exists>descs. mempool = Some descs \<and> descs \<noteq> []))"
  by (auto simp: handleBuildAttempt_def signalCanBuild_def Let_def needToBuild_def
      split: option.splits)

text \<open>
  An attempt at instant 7 against parent 9 by a pending builder: with transaction 5 still
  in the mempool the builder is pending again and one task is started; with an empty
  mempool it is idle and nothing is started.
\<close>

theorem handleBuildAttempt_spec_witness:
  "handleBuildAttempt 7 (Some [5 :: Hash]) 9
     \<lparr>hasPendingTxs = True, lastBuildTime = 3, lastBuildParentHash = 4\<rparr> =
     (\<lparr>hasPendingTxs = True, lastBuildTime = 7, lastBuildParentHash = 9\<rparr>,
      [Broadcast_pendingSignal, Go_scheduleBlockBuild]) \<and>
   handleBuildAttempt 7 (Some ([] :: Hash list)) 9
     \<lparr>hasPendingTxs = True, lastBuildTime = 3, lastBuildParentHash = 4\<rparr> =
     (\<lparr>hasPendingTxs = False, lastBuildTime = 7, lastBuildParentHash = 9\<rparr>, [])"
  using handleBuildAttempt_spec
          [of 7 "Some [5 :: Hash]" 9
              "\<lparr>hasPendingTxs = True, lastBuildTime = 3, lastBuildParentHash = 4\<rparr>"]
        handleBuildAttempt_spec
          [of 7 "Some ([] :: Hash list)" 9
              "\<lparr>hasPendingTxs = True, lastBuildTime = 3, lastBuildParentHash = 4\<rparr>"]
  by (simp add: needToBuild_def signalCanBuild_def)

section \<open>Properties of the block adapter\<close>

text \<open>
  Claim C7. \<^verbatim>\<open>Accept\<close> returns nil and sets both \<^verbatim>\<open>lastAccepted\<close> and \<^verbatim>\<open>preferred\<close> to
  the block's ID, both stores inside one critical section of \<^verbatim>\<open>blocksMu\<close>; every other
  field of the VM is as before, so the block builder's state is unchanged (an idle
  builder stays idle) and nothing is sent to the host engine, whatever the block holds.
\<close>

theorem Accept_frame:
  "Accept b v = (None, v\<lparr>lastAccepted := id' b, preferred := id' b\<rparr>) \<and>
   lastAccepted (snd (Accept b v)) = id' b \<and>
   preferred (snd (Accept b v)) = id' b \<and>
   blockBuilder (snd (Accept b v)) = blockBuilder v \<and>
   toEngine (snd (Accept b v)) = toEngine v \<and>
   ledger (snd (Accept b v)) = ledger v \<and>
   lock_discipline False (Accept_steps b)"
  by (simp add: Accept_def Accept_steps_def)

theorem Accept_frame_witness:
  "Accept \<lparr>btcBlock = Some (2 :: Hash), id' = 2, parentID = 1, height = 1, timestamp = 50,
           bytes = [2]\<rparr> demoVM =
     (None, demoVM\<lparr>lastAccepted := 2, preferred := 2\<rparr>) \<and>
   blockBuilder (snd (Accept \<lparr>btcBlock = Some (2 :: Hash), id' = 2, parentID = 1, height = 1,
           timestamp = 50, bytes = [2]\<rparr> demoVM)) =
     Some \<lparr>hasPendingTxs = False, lastBuildTime = 0, lastBuildParentHash = 0\<rparr>"
  using Accept_frame
          [of "\<lparr>btcBlock = Some (2 :: Hash), id' = 2, parentID = 1, height = 1, timestamp = 50,
                bytes = [2]\<rparr>" demoVM]
  by (simp add: demoVM_def)

section \<open>Properties of the gossip set's iteration\<close>

lemma Iterate_loop_Cons:
  "Iterate_loop f (desc # descs) st =
     (if fst (f (NewTxGossip (desc_Tx desc)) st)
      then ((NewTxGossip (desc_Tx desc), True)
              # fst (Iterate_loop f descs (snd (f (NewTxGossip (desc_Tx desc)) st))),
            snd (Iterate_loop f descs (snd (f (NewTxGossip (desc_Tx desc)) st))))
      else ([(NewTxGossip (desc_Tx desc), False)], snd (f (NewTxGossip (desc_Tx desc)) st)))"
  by (simp add: NewTxGossip_def Let_def split: prod.splits)

lemma callbackState_0: "callbackState f descs st 0 = st"
  by (simp add: callbackState_def)

lemma callbackState_Suc:
  "callbackState f (desc # descs) st (Suc i) =
     callbackState f descs (snd (f (NewTxGossip (desc_Tx desc)) st)) i"
  by (simp add: callbackState_def)

lemma callbackAnswer_0:
  "callbackAnswer f (desc # descs) st 0 = fst (f (NewTxGossip (desc_Tx desc)) st)"
  by (simp add: callbackAnswer_def callbackState_0)

lemma callbackAnswer_Suc:
  "callbackAnswer f (desc # descs) st (Suc i) =
     callbackAnswer f descs (snd (f (NewTxGossip (desc_Tx desc)) st)) i"
  by (simp add: callbackAnswer_def callbackState_Suc)

lemma Iterate_loop_length: "length (fst (Iterate_loop f descs st)) \<le> length descs"
  by (induction descs arbitrary: st) (simp_all add: Iterate_loop_Cons del: Iterate_loop.simps(2))

lemma Iterate_loop_nth:
  "i < length (fst (Iterate_loop f descs st)) \<Longrightarrow>
   fst (Iterate_loop f descs st) ! i =
     (NewTxGossip (desc_Tx (descs ! i)), callbackAnswer f descs st i)"
proof (induction descs arbitrary: st i)
  case Nil
  then show ?case by simp
next
  case (Cons d ds)
  show ?case
  proof (cases "fst (f (NewTxGossip (desc_Tx d)) st)")
    case False
    with Cons.prems have "i = 0" by (simp add: Iterate_loop_Cons del: Iterate_loop.simps(2))
    with False show ?thesis
      by (simp add: Iterate_loop_Cons callbackAnswer_0 del: Iterate_loop.simps(2))
  next
    case True
    show ?thesis
    proof (cases i)
      case 0
      with True show ?thesis
        by (simp add: Iterate_loop_Cons callbackAnswer_0 del: Iterate_loop.simps(2))
    next
      case (Suc j)
      with Cons.prems True
      have "j < length (fst (Iterate_loop f ds (snd (f (NewTxGossip (desc_Tx d)) st))))"
        by (simp add: Iterate_loop_Cons del: Iterate_loop.simps(2))
      from Cons.IH [OF this] True Suc show ?thesis
        by (simp add: Iterate_loop_Cons callbackAnswer_Suc del: Iterate_loop.simps(2))
    qed
  qed
qed

lemma Iterate_loop_true_before_last:
  "Suc i < length (fst (Iterate_loop f descs st)) \<Longrightarrow> callbackAnswer f descs st i"
proof (induction descs arbitrary: st i)
  case Nil
  then show ?case by simp
next
  case (Cons d ds)
  from Cons.prems have t: "fst (f (NewTxGossip (desc_Tx d)) st)"
    by (simp add: Iterate_loop_Cons del: Iterate_loop.simps(2) split: if_splits)
  show ?case
  proof (cases i)
    case 0
    with t show ?thesis by (simp add: callbackAnswer_0)
  next
    case (Suc j)
    with Cons.prems t
    have "Suc j < length (fst (Iterate_loop f ds (snd (f (NewTxGossip (desc_Tx d)) st))))"
      by (simp add: Iterate_loop_Cons del: Iterate_loop.simps(2))
    from Cons.IH [OF this] Suc show ?thesis by (simp add: callbackAnswer_Suc)
  qed
qed

lemma Iterate_loop_stops_on_false:
  "length (fst (Iterate_loop f descs st)) < length descs \<Longrightarrow>
   fst (Iterate_loop f descs st) \<noteq> [] \<and>
   \<not> callbackAnswer f descs st (length (fst (Iterate_loop f descs st)) - 1)"
proof (induction descs arbitrary: st)
  case Nil
  then show ?case by simp
next
  case (Cons d ds)
  show ?case
  proof (cases "fst (f (NewTxGossip (desc_Tx d)) st)")
    case False
    then show ?thesis
      by (simp add: Iterate_loop_Cons callbackAnswer_0 del: Iterate_loop.simps(2))
  next
    case True
    let ?st' = "snd (f (NewTxGossip (desc_Tx d)) st)"
    from Cons.prems True have "length (fst (Iterate_loop f ds ?st')) < length ds"
      by (simp add: Iterate_loop_Cons del: Iterate_loop.simps(2))
    from Cons.IH [OF this]
    have ne: "fst (Iterate_loop f ds ?st') \<noteq> []"
      and fa: "\<not> callbackAnswer f ds ?st' (length (fst (Iterate_loop f ds ?st')) - 1)"
      by simp_all
    from ne obtain k where k: "length (fst (Iterate_loop f ds ?st')) = Suc k"
      by (cases "fst (Iterate_loop f ds ?st')") simp_all
    with fa True show ?thesis
      by (simp add: Iterate_loop_Cons callbackAnswer_Suc del: Iterate_loop.simps(2))
  qed
qed

lemma Iterate_loop_final_state:
  "snd (Iterate_loop f descs st) =
     callbackState f descs st (length (fst (Iterate_loop f descs st)))"
  by (induction descs arbitrary: st)
     (simp_all add: Iterate_loop_Cons callbackState_0 callbackState_Suc
        del: Iterate_loop.simps(2))

lemma Iterate_loop_first_false:
  assumes "i < length descs" and "\<not> callbackAnswer f descs st i"
    and "\<forall>j < i. callbackAnswer f descs st j"
  shows "length (fst (Iterate_loop f descs st)) = Suc i"
proof -
  let ?n = "length (fst (Iterate_loop f descs st))"
  have "\<not> Suc i < ?n"
    using Iterate_loop_true_before_last [of i f descs st] assms(2) by blast
  moreover have "\<not> ?n < Suc i"
  proof
    assume lt: "?n < Suc i"
    with assms(1) have "?n < length descs" by simp
    from Iterate_loop_stops_on_false [OF this]
    have ne: "fst (Iterate_loop f descs st) \<noteq> []"
      and fa: "\<not> callbackAnswer f descs st (?n - 1)" by simp_all
    from ne have "0 < ?n" by simp
    with lt have "?n - 1 < i" by arith
    with fa show False using assms(3) by blast
  qed
  ultimately show ?thesis by simp
qed

lemma Iterate_loop_all_true:
  assumes "\<forall>i < length descs. callbackAnswer f descs st i"
  shows "length (fst (Iterate_loop f descs st)) = length descs"
proof (rule ccontr)
  assume "length (fst (Iterate_loop f descs st)) \<noteq> length descs"
  with Iterate_loop_length [of f descs st]
  have lt: "length (fst (Iterate_loop f descs st)) < length descs" by simp
  from Iterate_loop_stops_on_false [OF lt]
  have "fst (Iterate_loop f descs st) \<noteq> []"
    and "\<not> callbackAnswer f descs st (length (fst (Iterate_loop f descs st)) - 1)"
    by simp_all
  moreover from lt have "length (fst (Iterate_loop f descs st)) - 1 < length descs" by simp
  ultimately show False using assms by blast
qed

text \<open>
  Claim C8. \<^verbatim>\<open>Iterate\<close> calls the callback on the transactions of the mempool, in the
  order \<^verbatim>\<open>TxDescs\<close> gives them, each wrapped as a Tx item, and on nothing else: call
  number \<open>i\<close> is on transaction \<open>i\<close> of the mempool, wrapped, in the state the earlier calls
  left, and it is never on a block item. Every call before the last one made answered
  true, and the iteration ends before the end of the mempool only at a call that answered
  false: at the first transaction on which the callback answers false the iteration
  stops, with that call as its last, and if the callback answers false on none, every
  transaction of the mempool is visited.
\<close>

theorem Iterate_visits_mempool_txs:
  "length (fst (Iterate L v f st)) \<le> length (TxDescs L (ledger v)) \<and>
   (\<forall>i < length (fst (Iterate L v f st)).
      fst (Iterate L v f st) ! i =
        (NewTxGossip (desc_Tx (TxDescs L (ledger v) ! i)),
         callbackAnswer f (TxDescs L (ledger v)) st i) \<and>
      ItemType (fst (fst (Iterate L v f st) ! i)) = GossipItemTypeTx \<and>
      ItemType (fst (fst (Iterate L v f st) ! i)) \<noteq> GossipItemTypeBlock \<and>
      Block (fst (fst (Iterate L v f st) ! i)) = None) \<and>
   (\<forall>i. Suc i < length (fst (Iterate L v f st)) \<longrightarrow>
      callbackAnswer f (TxDescs L (ledger v)) st i) \<and>
   (length (fst (Iterate L v f st)) < length (TxDescs L (ledger v)) \<longrightarrow>
      fst (Iterate L v f st) \<noteq> [] \<and>
      \<not> callbackAnswer f (TxDescs L (ledger v)) st (length (fst (Iterate L v f st)) - 1)) \<and>
   (\<forall>i < length (TxDescs L (ledger v)).
      \<not> callbackAnswer f (TxDescs L (ledger v)) st i \<and>
      (\<forall>j < i. callbackAnswer f (TxDescs L (ledger v)) st j) \<longrightarrow>
      length (fst (Iterate L v f st)) = Suc i) \<and>
   ((\<forall>i < length (TxDescs L (ledger v)). callbackAnswer f (TxDescs L (ledger v)) st i) \<longrightarrow>
      map fst (fst (Iterate L v f st)) =
        map (\<lambda>d. NewTxGossip (desc_Tx d)) (TxDescs L (ledger v))) \<and>
   snd (Iterate L v f st) =
     callbackState f (TxDescs L (ledger v)) st (length (fst (Iterate L v f st)))"
proof (intro conjI allI impI)
  let ?ds = "TxDescs L (ledger v)"
  show "length (fst (Iterate L v f st)) \<le> length ?ds"
    unfolding Iterate_def by (rule Iterate_loop_length)
  show "callbackAnswer f ?ds st i" if "Suc i < length (fst (Iterate L v f st))" for i
    using that unfolding Iterate_def by (rule Iterate_loop_true_before_last)
  show "fst (Iterate L v f st) \<noteq> []"
    and "\<not> callbackAnswer f ?ds st (length (fst (Iterate L v f st)) - 1)"
    if "length (fst (Iterate L v f st)) < length ?ds"
    using Iterate_loop_stops_on_false [of f ?ds st] that by (simp_all add: Iterate_def)
  show "length (fst (Iterate L v f st)) = Suc i"
    if "i < length ?ds"
      and "\<not> callbackAnswer f ?ds st i \<and> (\<forall>j < i. callbackAnswer f ?ds st j)" for i
    using that Iterate_loop_first_false [of i ?ds f st] by (simp add: Iterate_def)
  show "snd (Iterate L v f st) = callbackState f ?ds st (length (fst (Iterate L v f st)))"
    unfolding Iterate_def by (rule Iterate_loop_final_state)
  show "map fst (fst (Iterate L v f st)) = map (\<lambda>d. NewTxGossip (desc_Tx d)) ?ds"
    if all: "\<forall>i < length ?ds. callbackAnswer f ?ds st i"
  proof (rule nth_equalityI)
    from Iterate_loop_all_true [OF all]
    show len: "length (map fst (fst (Iterate L v f st))) =
        length (map (\<lambda>d. NewTxGossip (desc_Tx d)) ?ds)"
      by (simp add: Iterate_def)
    show "map fst (fst (Iterate L v f st)) ! i = map (\<lambda>d. NewTxGossip (desc_Tx d)) ?ds ! i"
      if "i < length (map fst (fst (Iterate L v f st)))" for i
      using that len Iterate_loop_nth [of i f ?ds st] by (simp add: Iterate_def)
  qed
  fix i assume i: "i < length (fst (Iterate L v f st))"
  then show nth: "fst (Iterate L v f st) ! i =
        (NewTxGossip (desc_Tx (?ds ! i)), callbackAnswer f ?ds st i)"
    unfolding Iterate_def by (rule Iterate_loop_nth)
  show "ItemType (fst (fst (Iterate L v f st) ! i)) = GossipItemTypeTx"
    by (simp add: nth NewTxGossip_def)
  show "ItemType (fst (fst (Iterate L v f st) ! i)) \<noteq> GossipItemTypeBlock"
    by (simp add: nth NewTxGossip_def item_types_distinct)
  show "Block (fst (fst (Iterate L v f st) ! i)) = None"
    by (simp add: nth NewTxGossip_def)
qed

text \<open>
  On the mempool 5, 6, 7, with a callback that counts its calls: one that answers false at
  transaction 6 is called twice and not on 7; one that always answers true sees all three.
\<close>

theorem Iterate_visits_mempool_txs_witness:
  "fst (Iterate demoLedger demoVM (\<lambda>item (n :: nat). (Tx item \<noteq> Some 6, n + 1)) 0) =
     [(NewTxGossip (Some 5), True), (NewTxGossip (Some 6), False)] \<and>
   snd (Iterate demoLedger demoVM (\<lambda>item (n :: nat). (Tx item \<noteq> Some 6, n + 1)) 0) = 2 \<and>
   fst (Iterate demoLedger demoVM (\<lambda>item (n :: nat). (True, n + 1)) 0) =
     [(NewTxGossip (Some 5), True), (NewTxGossip (Some 6), True), (NewTxGossip (Some 7), True)]"
  using Iterate_visits_mempool_txs
          [of demoLedger demoVM "\<lambda>item (n :: nat). (Tx item \<noteq> Some 6, n + 1)" 0]
        Iterate_visits_mempool_txs
          [of demoLedger demoVM "\<lambda>item (n :: nat). (True, n + 1)" 0]
  by (simp add: Iterate_def demoLedger_def demoVM_def NewTxGossip_def)

section \<open>Properties of the gossip codec\<close>

lemma MarshalGossip_tx:
  "ItemType x = GossipItemTypeTx \<Longrightarrow> Tx x = Some t \<Longrightarrow>
   MarshalGossip W (Some x) =
     (case TxEncode W t of
        Inl err \<Rightarrow> Inl (Wrap ''failed to encode tx'' err)
      | Inr payload \<Rightarrow> Inr (GossipItemTypeTx # payload))"
  by (simp add: MarshalGossip_def split: sum.splits)

lemma MarshalGossip_block:
  "ItemType x = GossipItemTypeBlock \<Longrightarrow> Block x = Some b \<Longrightarrow>
   MarshalGossip W (Some x) =
     (case BlockEncode W b of
        Inl err \<Rightarrow> Inl (Wrap ''failed to encode block'' err)
      | Inr payload \<Rightarrow> Inr (GossipItemTypeBlock # payload))"
  by (simp add: MarshalGossip_def item_types_distinct [symmetric] split: sum.splits)

lemma UnmarshalGossip_tx:
  "UnmarshalGossip W (GossipItemTypeTx # payload) =
     (case TxDecode W payload of
        Inl err \<Rightarrow> Inl (Wrap ''failed to decode tx'' err)
      | Inr t' \<Rightarrow> Inr \<lparr>ItemType = GossipItemTypeTx, Tx = Some t', Block = None\<rparr>)"
  by (simp add: UnmarshalGossip_def)

lemma UnmarshalGossip_block:
  "UnmarshalGossip W (GossipItemTypeBlock # payload) =
     (case BlockDecode W payload of
        Inl err \<Rightarrow> Inl (Wrap ''failed to decode block'' err)
      | Inr b' \<Rightarrow> Inr \<lparr>ItemType = GossipItemTypeBlock, Tx = None, Block = Some b'\<rparr>)"
  by (simp add: UnmarshalGossip_def item_types_distinct [symmetric])

lemma GossipID_tx:
  "ItemType x = GossipItemTypeTx \<Longrightarrow> Tx x = Some t \<Longrightarrow>
   GossipID txHash blockHash (Some x) = Inr (txHash t)"
  by (simp add: GossipID_def hashToID_Some)

lemma GossipID_block:
  "ItemType x = GossipItemTypeBlock \<Longrightarrow> Block x = Some b \<Longrightarrow>
   GossipID txHash blockHash (Some x) = Inr (blockHash b)"
  by (simp add: GossipID_def hashToID_Some item_types_distinct [symmetric])

lemma roundtrip_tx_iff:
  assumes "ItemType x = GossipItemTypeTx" and "Tx x = Some t"
  shows "(\<exists>data y. MarshalGossip W (Some x) = Inr data \<and> UnmarshalGossip W data = Inr y \<and>
            ItemType y = ItemType x \<and>
            GossipID txHash blockHash (Some y) = GossipID txHash blockHash (Some x)) \<longleftrightarrow>
         (\<exists>payload t'. TxEncode W t = Inr payload \<and> TxDecode W payload = Inr t' \<and>
            txHash t' = txHash t)"
proof
  assume "\<exists>data y. MarshalGossip W (Some x) = Inr data \<and> UnmarshalGossip W data = Inr y \<and>
            ItemType y = ItemType x \<and>
            GossipID txHash blockHash (Some y) = GossipID txHash blockHash (Some x)"
  then obtain data y where m: "MarshalGossip W (Some x) = Inr data"
    and u: "UnmarshalGossip W data = Inr y"
    and g: "GossipID txHash blockHash (Some y) = GossipID txHash blockHash (Some x)" by blast
  from m assms obtain payload where e: "TxEncode W t = Inr payload"
    and d: "data = GossipItemTypeTx # payload"
    by (auto simp: MarshalGossip_tx split: sum.splits)
  from u d obtain t' where dec: "TxDecode W payload = Inr t'"
    and y: "y = \<lparr>ItemType = GossipItemTypeTx, Tx = Some t', Block = None\<rparr>"
    by (auto simp: UnmarshalGossip_tx split: sum.splits)
  from g y assms have "txHash t' = txHash t" by (simp add: GossipID_tx)
  with e dec show "\<exists>payload t'. TxEncode W t = Inr payload \<and> TxDecode W payload = Inr t' \<and>
            txHash t' = txHash t" by blast
next
  assume "\<exists>payload t'. TxEncode W t = Inr payload \<and> TxDecode W payload = Inr t' \<and>
            txHash t' = txHash t"
  then obtain payload t' where e: "TxEncode W t = Inr payload"
    and dec: "TxDecode W payload = Inr t'" and h: "txHash t' = txHash t" by blast
  let ?y = "\<lparr>ItemType = GossipItemTypeTx, Tx = Some t', Block = None\<rparr> :: ('a, 'b) BTCGossip"
  from assms e have "MarshalGossip W (Some x) = Inr (GossipItemTypeTx # payload)"
    by (simp add: MarshalGossip_tx)
  moreover from dec have "UnmarshalGossip W (GossipItemTypeTx # payload) = Inr ?y"
    by (simp add: UnmarshalGossip_tx)
  moreover from assms have "ItemType ?y = ItemType x" by simp
  moreover from assms h
  have "GossipID txHash blockHash (Some ?y) = GossipID txHash blockHash (Some x)"
    by (simp add: GossipID_tx)
  ultimately show "\<exists>data y. MarshalGossip W (Some x) = Inr data \<and>
            UnmarshalGossip W data = Inr y \<and> ItemType y = ItemType x \<and>
            GossipID txHash blockHash (Some y) = GossipID txHash blockHash (Some x)" by blast
qed

lemma roundtrip_block_iff:
  assumes "ItemType x = GossipItemTypeBlock" and "Block x = Some b"
  shows "(\<exists>data y. MarshalGossip W (Some x) = Inr data \<and> UnmarshalGossip W data = Inr y \<and>
            ItemType y = ItemType x \<and>
            GossipID txHash blockHash (Some y) = GossipID txHash blockHash (Some x)) \<longleftrightarrow>
         (\<exists>payload b'. BlockEncode W b = Inr payload \<and> BlockDecode W payload = Inr b' \<and>
            blockHash b' = blockHash b)"
proof
  assume "\<exists>data y. MarshalGossip W (Some x) = Inr data \<and> UnmarshalGossip W data = Inr y \<and>
            ItemType y = ItemType x \<and>
            GossipID txHash blockHash (Some y) = GossipID txHash blockHash (Some x)"
  then obtain data y where m: "MarshalGossip W (Some x) = Inr data"
    and u: "UnmarshalGossip W data = Inr y"
    and g: "GossipID txHash blockHash (Some y) = GossipID txHash blockHash (Some x)" by blast
  from m assms obtain payload where e: "BlockEncode W b = Inr payload"
    and d: "data = GossipItemTypeBlock # payload"
    by (auto simp: MarshalGossip_block split: sum.splits)
  from u d obtain b' where dec: "BlockDecode W payload = Inr b'"
    and y: "y = \<lparr>ItemType = GossipItemTypeBlock, Tx = None, Block = Some b'\<rparr>"
    by (auto simp: UnmarshalGossip_block split: sum.splits)
  from g y assms have "blockHash b' = blockHash b" by (simp add: GossipID_block)
  with e dec show "\<exists>payload b'. BlockEncode W b = Inr payload \<and>
            BlockDecode W payload = Inr b' \<and> blockHash b' = blockHash b" by blast
next
  assume "\<exists>payload b'. BlockEncode W b = Inr payload \<and> BlockDecode W payload = Inr b' \<and>
            blockHash b' = blockHash b"
  then obtain payload b' where e: "BlockEncode W b = Inr payload"
    and dec: "BlockDecode W payload = Inr b'" and h: "blockHash b' = blockHash b" by blast
  let ?y = "\<lparr>ItemType = GossipItemTypeBlock, Tx = None, Block = Some b'\<rparr> :: ('a, 'b) BTCGossip"
  from assms e have "MarshalGossip W (Some x) = Inr (GossipItemTypeBlock # payload)"
    by (simp add: MarshalGossip_block)
  moreover from dec have "UnmarshalGossip W (GossipItemTypeBlock # payload) = Inr ?y"
    by (simp add: UnmarshalGossip_block)
  moreover from assms have "ItemType ?y = ItemType x" by simp
  moreover from assms h
  have "GossipID txHash blockHash (Some ?y) = GossipID txHash blockHash (Some x)"
    by (simp add: GossipID_block)
  ultimately show "\<exists>data y. MarshalGossip W (Some x) = Inr data \<and>
            UnmarshalGossip W data = Inr y \<and> ItemType y = ItemType x \<and>
            GossipID txHash blockHash (Some y) = GossipID txHash blockHash (Some x)" by blast
qed

text \<open>
  Claim C2, as the code has it. For a Tx item with a transaction (and likewise a Block
  item with a block), \<^verbatim>\<open>MarshalGossip\<close> fails exactly when the wire encoder fails, and
  otherwise returns the kind byte followed by the payload's wire encoding;
  \<^verbatim>\<open>UnmarshalGossip\<close> of a kind byte and payload bytes fails exactly when the wire
  decoder fails on these bytes, and otherwise returns an item of that kind with the
  decoded payload. So marshalling the item and unmarshalling the result succeeds with the
  same kind and the same \<^verbatim>\<open>GossipID\<close> if and only if the wire codec encodes the payload
  and reads the encoding back to a payload with the same hash.
\<close>

theorem codec_roundtrip:
  "(ItemType x = GossipItemTypeTx \<and> Tx x = Some t \<longrightarrow>
      MarshalGossip W (Some x) =
        (case TxEncode W t of
           Inl err \<Rightarrow> Inl (Wrap ''failed to encode tx'' err)
         | Inr payload \<Rightarrow> Inr (GossipItemTypeTx # payload)) \<and>
      ((\<exists>data y. MarshalGossip W (Some x) = Inr data \<and> UnmarshalGossip W data = Inr y \<and>
           ItemType y = ItemType x \<and>
           GossipID txHash blockHash (Some y) = GossipID txHash blockHash (Some x)) \<longleftrightarrow>
       (\<exists>payload t'. TxEncode W t = Inr payload \<and> TxDecode W payload = Inr t' \<and>
           txHash t' = txHash t))) \<and>
   (ItemType x = GossipItemTypeBlock \<and> Block x = Some b \<longrightarrow>
      MarshalGossip W (Some x) =
        (case BlockEncode W b of
           Inl err \<Rightarrow> Inl (Wrap ''failed to encode block'' err)
         | Inr payload \<Rightarrow> Inr (GossipItemTypeBlock # payload)) \<and>
      ((\<exists>data y. MarshalGossip W (Some x) = Inr data \<and> UnmarshalGossip W data = Inr y \<and>
           ItemType y = ItemType x \<and>
           GossipID txHash blockHash (Some y) = GossipID txHash blockHash (Some x)) \<longleftrightarrow>
       (\<exists>payload b'. BlockEncode W b = Inr payload \<and> BlockDecode W payload = Inr b' \<and>
           blockHash b' = blockHash b))) \<and>
   UnmarshalGossip W (GossipItemTypeTx # rest) =
     (case TxDecode W rest of
        Inl err \<Rightarrow> Inl (Wrap ''failed to decode tx'' err)
      | Inr t' \<Rightarrow> Inr \<lparr>ItemType = GossipItemTypeTx, Tx = Some t', Block = None\<rparr>) \<and>
   UnmarshalGossip W (GossipItemTypeBlock # rest) =
     (case BlockDecode W rest of
        Inl err \<Rightarrow> Inl (Wrap ''failed to decode block'' err)
      | Inr b' \<Rightarrow> Inr \<lparr>ItemType = GossipItemTypeBlock, Tx = None, Block = Some b'\<rparr>)"
proof (intro conjI impI)
  show "UnmarshalGossip W (GossipItemTypeTx # rest) =
     (case TxDecode W rest of
        Inl err \<Rightarrow> Inl (Wrap ''failed to decode tx'' err)
      | Inr t' \<Rightarrow> Inr \<lparr>ItemType = GossipItemTypeTx, Tx = Some t', Block = None\<rparr>)"
    by (rule UnmarshalGossip_tx)
  show "UnmarshalGossip W (GossipItemTypeBlock # rest) =
     (case BlockDecode W rest of
        Inl err \<Rightarrow> Inl (Wrap ''failed to decode block'' err)
      | Inr b' \<Rightarrow> Inr \<lparr>ItemType = GossipItemTypeBlock, Tx = None, Block = Some b'\<rparr>)"
    by (rule UnmarshalGossip_block)
next
  assume h: "ItemType x = GossipItemTypeTx \<and> Tx x = Some t"
  then show "MarshalGossip W (Some x) =
        (case TxEncode W t of
           Inl err \<Rightarrow> Inl (Wrap ''failed to encode tx'' err)
         | Inr payload \<Rightarrow> Inr (GossipItemTypeTx # payload))"
    by (simp add: MarshalGossip_tx)
  from h show "(\<exists>data y. MarshalGossip W (Some x) = Inr data \<and> UnmarshalGossip W data = Inr y \<and>
           ItemType y = ItemType x \<and>
           GossipID txHash blockHash (Some y) = GossipID txHash blockHash (Some x)) \<longleftrightarrow>
       (\<exists>payload t'. TxEncode W t = Inr payload \<and> TxDecode W payload = Inr t' \<and>
           txHash t' = txHash t)"
    using roundtrip_tx_iff [where x = x and t = t and W = W and txHash = txHash
        and blockHash = blockHash] by blast
next
  assume h: "ItemType x = GossipItemTypeBlock \<and> Block x = Some b"
  then show "MarshalGossip W (Some x) =
        (case BlockEncode W b of
           Inl err \<Rightarrow> Inl (Wrap ''failed to encode block'' err)
         | Inr payload \<Rightarrow> Inr (GossipItemTypeBlock # payload))"
    by (simp add: MarshalGossip_block)
  from h show "(\<exists>data y. MarshalGossip W (Some x) = Inr data \<and> UnmarshalGossip W data = Inr y \<and>
           ItemType y = ItemType x \<and>
           GossipID txHash blockHash (Some y) = GossipID txHash blockHash (Some x)) \<longleftrightarrow>
       (\<exists>payload b'. BlockEncode W b = Inr payload \<and> BlockDecode W payload = Inr b' \<and>
           blockHash b' = blockHash b)"
    using roundtrip_block_iff [where x = x and b = b and W = W and txHash = txHash
        and blockHash = blockHash] by blast
qed

text \<open>
  Transaction 7 and block 9 through the one-byte codec, and the transaction with inputs 7
  and 8 through the codec with the marker rule.
\<close>

theorem codec_roundtrip_witness:
  "MarshalGossip demoCodec (Some (NewTxGossip (Some 7))) = Inr [0x01, 7] \<and>
   UnmarshalGossip demoCodec [0x01, 7] = Inr (NewTxGossip (Some 7)) \<and>
   MarshalGossip demoCodec (Some (NewBlockGossip (Some 9))) = Inr [0x02, 9] \<and>
   UnmarshalGossip demoCodec [0x02, 9] = Inr (NewBlockGossip (Some 9)) \<and>
   MarshalGossip markerCodec (Some (NewTxGossip (Some [7, 8]))) = Inr [0x01, 2, 7, 8] \<and>
   UnmarshalGossip markerCodec [0x01, 2, 7, 8] = Inr (NewTxGossip (Some [7, 8]))"
  using codec_roundtrip
          [where x = "NewTxGossip (Some 7)" and t = 7 and W = demoCodec and rest = "[7]"]
        codec_roundtrip
          [where x = "NewBlockGossip (Some 9)" and b = 9 and W = demoCodec and rest = "[9]"]
        codec_roundtrip
          [where x = "NewTxGossip (Some [7, 8])" and t = "[7, 8]" and W = markerCodec
             and rest = "[2, 7, 8]"]
  by (simp add: NewTxGossip_def NewBlockGossip_def demoCodec_def markerCodec_def
      GossipItemTypeTx_def GossipItemTypeBlock_def)

text \<open>
  Claim C2 as first worded promises the round trip for every item with a non-nil payload.
  Under the codec with the marker rule the transaction without inputs is such an item:
  it is marshalled, and unmarshalling the bytes fails.
\<close>

theorem codec_roundtrip_counterexample:
  "ItemType (NewTxGossip (Some []) :: (byte list, byte list) BTCGossip) = GossipItemTypeTx \<and>
   Tx (NewTxGossip (Some []) :: (byte list, byte list) BTCGossip) \<noteq> None \<and>
   MarshalGossip markerCodec (Some (NewTxGossip (Some []))) = Inr [0x01, 0] \<and>
   UnmarshalGossip markerCodec [0x01, 0] = Inl (Wrap ''failed to decode tx'' (External 6))"
  by (simp add: MarshalGossip_def UnmarshalGossip_def NewTxGossip_def markerCodec_def
      GossipItemTypeTx_def)

section \<open>Properties of the gossip set's Add\<close>

lemma OnTxRelay_closure_no_gossiper:
  "pushGossiper v = None \<Longrightarrow> OnTxRelay_closure txns v = Inr v"
  by (induction txns arbitrary: v) simp_all

lemma OnTxRelay_closure_queue:
  "pushGossiper v = Some queue \<Longrightarrow> \<forall>txD \<in> set txns. desc_Tx txD \<noteq> None \<Longrightarrow>
   OnTxRelay_closure txns v =
     Inr (v\<lparr>pushGossiper := Some (queue @ map (\<lambda>txD. NewTxGossip (desc_Tx txD)) txns)\<rparr>)"
proof (induction txns arbitrary: v queue)
  case Nil
  then show ?case by simp
next
  case (Cons txD txns)
  from Cons.prems obtain tx where tx: "desc_Tx txD = Some tx" by auto
  let ?v' = "v\<lparr>pushGossiper := Some (queue @ [NewTxGossip (desc_Tx txD)])\<rparr>"
  have q: "pushGossiper ?v' = Some (queue @ [NewTxGossip (desc_Tx txD)])" by simp
  from Cons.prems have rest: "\<forall>txD \<in> set txns. desc_Tx txD \<noteq> None" by simp
  from Cons.IH [OF q rest] Cons.prems(1) tx show ?case by (simp add: Let_def)
qed

lemma OnTxRelay_closure_panics:
  "pushGossiper v = Some queue \<Longrightarrow> \<exists>txD \<in> set txns. desc_Tx txD = None \<Longrightarrow>
   OnTxRelay_closure txns v = Inl NilPointerDereference"
proof (induction txns arbitrary: v queue)
  case Nil
  then show ?case by simp
next
  case (Cons txD txns)
  show ?case
  proof (cases "desc_Tx txD")
    case None
    with Cons.prems(1) show ?thesis by (simp add: Let_def)
  next
    case (Some tx)
    let ?v' = "v\<lparr>pushGossiper := Some (queue @ [NewTxGossip (desc_Tx txD)])\<rparr>"
    have q: "pushGossiper ?v' = Some (queue @ [NewTxGossip (desc_Tx txD)])" by simp
    from Cons.prems(2) Some have rest: "\<exists>txD \<in> set txns. desc_Tx txD = None" by auto
    from Cons.IH [OF q rest] Cons.prems(1) Some show ?thesis by (simp add: Let_def)
  qed
qed

lemma BloomFilter_Add_tx:
  "ItemType it = GossipItemTypeTx \<Longrightarrow> Tx it = Some tx \<Longrightarrow>
   BloomFilter_Add L it added = added @ [TxHash L tx]"
  by (simp add: BloomFilter_Add_def GossipID_tx)

lemma BloomFilter_Add_block:
  "ItemType it = GossipItemTypeBlock \<Longrightarrow> Block it = Some blk \<Longrightarrow>
   BloomFilter_Add L it added = added @ [BlockHash L blk]"
  by (simp add: BloomFilter_Add_def GossipID_block)

lemma Add_tx_accepted:
  assumes "ItemType it = GossipItemTypeTx" and "Tx it = Some tx"
    and "\<not> HaveTransaction L (ledger v) (TxHash L tx)"
    and "ProcessTransaction L (ledger v) tx = (Inr acceptedTxs, e')"
  shows "Add L (Some it) v =
     (if acceptedTxs \<noteq> [] \<and> OnTxRelay v
      then (case OnTxRelay_closure acceptedTxs
                    (v\<lparr>ledger := e', bloom := bloom v @ [TxHash L tx]\<rparr>) of
              Inl p \<Rightarrow> Inl p
            | Inr v2 \<Rightarrow> Inr (None, v2))
      else Inr (None, v\<lparr>ledger := e', bloom := bloom v @ [TxHash L tx]\<rparr>))"
  using assms by (simp add: Add_def BloomFilter_Add_tx)

text \<open>
  Claim C3. \<^verbatim>\<open>Add\<close> on a Tx item with a transaction. If the mempool already has the
  transaction, the item is added to the bloom filter and nil is returned, with the engine
  untouched. If \<^verbatim>\<open>ProcessTransaction\<close> fails, its error is returned and the bloom filter
  is as before. If it succeeds and every descriptor the engine reports carries its
  transaction, then, with the relay callback of \<^verbatim>\<open>Initialize\<close> installed and the push
  gossiper created, the item is added to the filter, every reported transaction is
  handed to the push gossiper, and nil is returned. With nothing reported, no callback or
  no push gossiper, the item is added to the filter and nil is returned. A reported
  descriptor with a nil transaction makes the installed callback panic.
\<close>

theorem Add_tx_spec:
  "(ItemType it = GossipItemTypeTx \<and> Tx it = Some tx \<and>
    HaveTransaction L (ledger v) (TxHash L tx) \<longrightarrow>
      Add L (Some it) v = Inr (None, v\<lparr>bloom := bloom v @ [TxHash L tx]\<rparr>)) \<and>
   (ItemType it = GossipItemTypeTx \<and> Tx it = Some tx \<and>
    \<not> HaveTransaction L (ledger v) (TxHash L tx) \<and>
    ProcessTransaction L (ledger v) tx = (Inl err, e') \<longrightarrow>
      Add L (Some it) v = Inr (Some err, v\<lparr>ledger := e'\<rparr>)) \<and>
   (ItemType it = GossipItemTypeTx \<and> Tx it = Some tx \<and>
    \<not> HaveTransaction L (ledger v) (TxHash L tx) \<and>
    ProcessTransaction L (ledger v) tx = (Inr acceptedTxs, e') \<and>
    (\<forall>txD \<in> set acceptedTxs. desc_Tx txD \<noteq> None) \<and>
    OnTxRelay v \<and> pushGossiper v = Some queue \<longrightarrow>
      Add L (Some it) v =
        Inr (None, v\<lparr>ledger := e', bloom := bloom v @ [TxHash L tx],
                     pushGossiper :=
                       Some (queue @ map (\<lambda>txD. NewTxGossip (desc_Tx txD)) acceptedTxs)\<rparr>)) \<and>
   (ItemType it = GossipItemTypeTx \<and> Tx it = Some tx \<and>
    \<not> HaveTransaction L (ledger v) (TxHash L tx) \<and>
    ProcessTransaction L (ledger v) tx = (Inr acceptedTxs, e') \<and>
    (acceptedTxs = [] \<or> \<not> OnTxRelay v \<or> pushGossiper v = None) \<longrightarrow>
      Add L (Some it) v = Inr (None, v\<lparr>ledger := e', bloom := bloom v @ [TxHash L tx]\<rparr>)) \<and>
   (ItemType it = GossipItemTypeTx \<and> Tx it = Some tx \<and>
    \<not> HaveTransaction L (ledger v) (TxHash L tx) \<and>
    ProcessTransaction L (ledger v) tx = (Inr acceptedTxs, e') \<and>
    (\<exists>txD \<in> set acceptedTxs. desc_Tx txD = None) \<and>
    OnTxRelay v \<and> pushGossiper v = Some queue \<longrightarrow>
      Add L (Some it) v = Inl NilPointerDereference)"
proof (intro conjI impI)
  assume "ItemType it = GossipItemTypeTx \<and> Tx it = Some tx \<and>
    HaveTransaction L (ledger v) (TxHash L tx)"
  then show "Add L (Some it) v = Inr (None, v\<lparr>bloom := bloom v @ [TxHash L tx]\<rparr>)"
    by (simp add: Add_def BloomFilter_Add_tx)
next
  assume "ItemType it = GossipItemTypeTx \<and> Tx it = Some tx \<and>
    \<not> HaveTransaction L (ledger v) (TxHash L tx) \<and>
    ProcessTransaction L (ledger v) tx = (Inl err, e')"
  then show "Add L (Some it) v = Inr (Some err, v\<lparr>ledger := e'\<rparr>)"
    by (simp add: Add_def)
next
  assume h: "ItemType it = GossipItemTypeTx \<and> Tx it = Some tx \<and>
    \<not> HaveTransaction L (ledger v) (TxHash L tx) \<and>
    ProcessTransaction L (ledger v) tx = (Inr acceptedTxs, e') \<and>
    (\<forall>txD \<in> set acceptedTxs. desc_Tx txD \<noteq> None) \<and>
    OnTxRelay v \<and> pushGossiper v = Some queue"
  let ?v1 = "v\<lparr>ledger := e', bloom := bloom v @ [TxHash L tx]\<rparr>"
  from h have q: "pushGossiper ?v1 = Some queue" by simp
  from h have all: "\<forall>txD \<in> set acceptedTxs. desc_Tx txD \<noteq> None" by simp
  from h have run: "Add L (Some it) v =
     (if acceptedTxs \<noteq> [] \<and> OnTxRelay v
      then (case OnTxRelay_closure acceptedTxs ?v1 of Inl p \<Rightarrow> Inl p | Inr v2 \<Rightarrow> Inr (None, v2))
      else Inr (None, ?v1))"
    by (simp add: Add_tx_accepted)
  from h show "Add L (Some it) v =
        Inr (None, v\<lparr>ledger := e', bloom := bloom v @ [TxHash L tx],
                     pushGossiper :=
                       Some (queue @ map (\<lambda>txD. NewTxGossip (desc_Tx txD)) acceptedTxs)\<rparr>)"
    by (cases "acceptedTxs = []") (simp_all add: run OnTxRelay_closure_queue [OF q all])
next
  assume h: "ItemType it = GossipItemTypeTx \<and> Tx it = Some tx \<and>
    \<not> HaveTransaction L (ledger v) (TxHash L tx) \<and>
    ProcessTransaction L (ledger v) tx = (Inr acceptedTxs, e') \<and>
    (acceptedTxs = [] \<or> \<not> OnTxRelay v \<or> pushGossiper v = None)"
  let ?v1 = "v\<lparr>ledger := e', bloom := bloom v @ [TxHash L tx]\<rparr>"
  from h have run: "Add L (Some it) v =
     (if acceptedTxs \<noteq> [] \<and> OnTxRelay v
      then (case OnTxRelay_closure acceptedTxs ?v1 of Inl p \<Rightarrow> Inl p | Inr v2 \<Rightarrow> Inr (None, v2))
      else Inr (None, ?v1))"
    by (simp add: Add_tx_accepted)
  show "Add L (Some it) v = Inr (None, ?v1)"
  proof (cases "acceptedTxs \<noteq> [] \<and> OnTxRelay v")
    case True
    with h have "pushGossiper ?v1 = None" by simp
    then have "OnTxRelay_closure acceptedTxs ?v1 = Inr ?v1"
      by (rule OnTxRelay_closure_no_gossiper)
    with True show ?thesis by (simp add: run)
  next
    case False
    then show ?thesis by (auto simp: run)
  qed
next
  assume h: "ItemType it = GossipItemTypeTx \<and> Tx it = Some tx \<and>
    \<not> HaveTransaction L (ledger v) (TxHash L tx) \<and>
    ProcessTransaction L (ledger v) tx = (Inr acceptedTxs, e') \<and>
    (\<exists>txD \<in> set acceptedTxs. desc_Tx txD = None) \<and>
    OnTxRelay v \<and> pushGossiper v = Some queue"
  let ?v1 = "v\<lparr>ledger := e', bloom := bloom v @ [TxHash L tx]\<rparr>"
  from h have q: "pushGossiper ?v1 = Some queue" by simp
  from h have ex: "\<exists>txD \<in> set acceptedTxs. desc_Tx txD = None" by simp
  then have ne: "acceptedTxs \<noteq> []" by auto
  from h have run: "Add L (Some it) v =
     (if acceptedTxs \<noteq> [] \<and> OnTxRelay v
      then (case OnTxRelay_closure acceptedTxs ?v1 of Inl p \<Rightarrow> Inl p | Inr v2 \<Rightarrow> Inr (None, v2))
      else Inr (None, ?v1))"
    by (simp add: Add_tx_accepted)
  from h ne show "Add L (Some it) v = Inl NilPointerDereference"
    by (simp add: run OnTxRelay_closure_panics [OF q ex])
qed

text \<open>
  On the small engine: transaction 5 is in the mempool; transaction 0 is rejected;
  transaction 9 is accepted and handed to the push gossiper; without a push gossiper it is
  accepted and marked only; and when the engine reports a descriptor with a nil
  transaction the callback panics.
\<close>

theorem Add_tx_spec_witness:
  "Add demoLedger (Some (NewTxGossip (Some 5))) demoVM = Inr (None, demoVM\<lparr>bloom := [5]\<rparr>) \<and>
   Add demoLedger (Some (NewTxGossip (Some 0))) demoVM = Inr (Some (External 1), demoVM) \<and>
   Add demoLedger (Some (NewTxGossip (Some 9))) demoVM =
     Inr (None, demoVM\<lparr>ledger := ([5, 6, 7, 9], [1]), bloom := [9],
                        pushGossiper := Some [NewTxGossip (Some 9)]\<rparr>) \<and>
   Add demoLedger (Some (NewTxGossip (Some 9))) (demoVM\<lparr>pushGossiper := None\<rparr>) =
     Inr (None, demoVM\<lparr>ledger := ([5, 6, 7, 9], [1]), bloom := [9], pushGossiper := None\<rparr>) \<and>
   Add nilDescLedger (Some (NewTxGossip (Some 9))) demoVM = Inl NilPointerDereference"
  using Add_tx_spec [where L = demoLedger and it = "NewTxGossip (Some 5)" and tx = 5
          and v = demoVM and queue = "[]"]
        Add_tx_spec [where L = demoLedger and it = "NewTxGossip (Some 0)" and tx = 0
          and v = demoVM and err = "External 1" and e' = "([5, 6, 7], [1])"]
        Add_tx_spec [where L = demoLedger and it = "NewTxGossip (Some 9)" and tx = 9
          and v = demoVM and acceptedTxs = "[TxDesc (Some 9)]" and e' = "([5, 6, 7, 9], [1])"
          and queue = "[]"]
        Add_tx_spec [where L = demoLedger and it = "NewTxGossip (Some 9)" and tx = 9
          and v = "demoVM\<lparr>pushGossiper := None\<rparr>" and acceptedTxs = "[TxDesc (Some 9)]"
          and e' = "([5, 6, 7, 9], [1])"]
        Add_tx_spec [where L = nilDescLedger and it = "NewTxGossip (Some 9)" and tx = 9
          and v = demoVM and acceptedTxs = "[TxDesc None]" and e' = "([5, 6, 7], [1])"
          and queue = "[]"]
  by (simp add: demoLedger_def nilDescLedger_def demoVM_def NewTxGossip_def)

text \<open>
  Claim C4, as the code has it. \<^verbatim>\<open>Add\<close> on a Block item with a block: if the lookup
  \<^verbatim>\<open>HaveBlock\<close> itself fails, that error is returned and the block is neither processed nor
  added to the bloom filter; if the chain already has the block, the item is added to the
  filter and nil is returned; if the chain does not have it, the block is submitted to
  \<^verbatim>\<open>ProcessBlock\<close> and, whatever \<^verbatim>\<open>ProcessBlock\<close> returns, the item is added to the filter
  and nil is returned. None of the three panics.
\<close>

theorem Add_block_spec:
  "(ItemType it = GossipItemTypeBlock \<and> Block it = Some blk \<and>
    HaveBlock L (ledger v) (BlockHash L blk) = Inl err \<longrightarrow>
      Add L (Some it) v = Inr (Some err, v)) \<and>
   (ItemType it = GossipItemTypeBlock \<and> Block it = Some blk \<and>
    HaveBlock L (ledger v) (BlockHash L blk) = Inr True \<longrightarrow>
      Add L (Some it) v = Inr (None, v\<lparr>bloom := bloom v @ [BlockHash L blk]\<rparr>)) \<and>
   (ItemType it = GossipItemTypeBlock \<and> Block it = Some blk \<and>
    HaveBlock L (ledger v) (BlockHash L blk) = Inr False \<longrightarrow>
      Add L (Some it) v =
        Inr (None, v\<lparr>ledger := snd (ProcessBlock L (ledger v) blk),
                     bloom := bloom v @ [BlockHash L blk]\<rparr>))"
  by (auto simp: Add_def BloomFilter_Add_block item_types_distinct [symmetric] split: prod.splits)

text \<open>
  On the small engine: the lookup fails on block 0; block 1 is on the chain; block 13
  fails in \<^verbatim>\<open>ProcessBlock\<close> and is marked all the same; block 2 is connected.
\<close>

theorem Add_block_spec_witness:
  "Add demoLedger (Some (NewBlockGossip (Some 0))) demoVM = Inr (Some (External 2), demoVM) \<and>
   Add demoLedger (Some (NewBlockGossip (Some 1))) demoVM = Inr (None, demoVM\<lparr>bloom := [1]\<rparr>) \<and>
   fst (ProcessBlock demoLedger (ledger demoVM) 13) = Inl (External 3) \<and>
   Add demoLedger (Some (NewBlockGossip (Some 13))) demoVM =
     Inr (None, demoVM\<lparr>bloom := [13]\<rparr>) \<and>
   Add demoLedger (Some (NewBlockGossip (Some 2))) demoVM =
     Inr (None, demoVM\<lparr>ledger := ([5, 6, 7], [1, 2]), bloom := [2]\<rparr>)"
  using Add_block_spec [where L = demoLedger and it = "NewBlockGossip (Some 0)" and blk = 0
          and v = demoVM and err = "External 2"]
        Add_block_spec [where L = demoLedger and it = "NewBlockGossip (Some 1)" and blk = 1
          and v = demoVM]
        Add_block_spec [where L = demoLedger and it = "NewBlockGossip (Some 13)" and blk = 13
          and v = demoVM]
        Add_block_spec [where L = demoLedger and it = "NewBlockGossip (Some 2)" and blk = 2
          and v = demoVM]
  by (simp add: demoLedger_def demoVM_def NewBlockGossip_def)

text \<open>
  Claim C4 as first worded has two cases only: the chain has the block, or else the block
  is processed and \<^verbatim>\<open>Add\<close> succeeds and marks it. On the small engine the lookup of
  block 0 fails: the chain is not found to have the block, and yet \<^verbatim>\<open>Add\<close> returns the
  lookup's error and leaves the bloom filter and the engine as they were.
\<close>

theorem Add_block_counterexample:
  "HaveBlock demoLedger (ledger demoVM) (BlockHash demoLedger 0) \<noteq> Inr True \<and>
   Add demoLedger (Some (NewBlockGossip (Some 0))) demoVM =
     Inr (Some (External 2), demoVM)"
  by (simp add: Add_def demoLedger_def demoVM_def NewBlockGossip_def
      item_types_distinct [symmetric])

section \<open>Properties of the configuration check\<close>

lemma f64_outside_closed:
  "x \<noteq> NaN \<Longrightarrow> (f64_lt x (Finite 0) \<or> f64_gt x (Finite 1)) = (\<not> in_closed_unit x)"
  by (cases x) (auto simp: f64_gt_def in_closed_unit_def)

lemma f64_outside_open:
  "x \<noteq> NaN \<Longrightarrow> (f64_le x (Finite 0) \<or> f64_ge x (Finite 1)) = (\<not> in_open_unit x)"
  by (cases x) (auto simp: f64_ge_def in_open_unit_def)

text \<open>
  On a configuration without a NaN, a comparison of the list is violated exactly when the
  value lies outside its interval.
\<close>

lemma violated_iff_constraints: "no_NaN c \<Longrightarrow> violated c = (\<not> constraints_hold c)"
  unfolding no_NaN_def violated_def constraints_hold_def
  using f64_outside_closed [of "PushGossipPercentStake c"]
    f64_outside_open [of "BloomFalsePositiveRate c"]
    f64_outside_open [of "BloomResetThreshold c"]
  by auto

lemma Validate_Default: "Validate DefaultGossipConfig = None"
  by (simp add: Validate_def DefaultGossipConfig_def f64_gt_def f64_ge_def Millisecond_def
      Second_def)

lemma Validate_error_iff: "(Validate c \<noteq> None) = violated c"
  by (auto simp: Validate_def violated_def)

text \<open>
  A NaN compares false with everything: it violates none of the comparisons, and
  \<^verbatim>\<open>Validate\<close> does not report it.
\<close>

lemma Validate_NaN:
  "Validate (DefaultGossipConfig\<lparr>BloomFalsePositiveRate := NaN\<rparr>) = None \<and>
   \<not> violated (DefaultGossipConfig\<lparr>BloomFalsePositiveRate := NaN\<rparr>)"
  by (simp add: Validate_def violated_def DefaultGossipConfig_def f64_gt_def f64_ge_def
      Millisecond_def Second_def)

text \<open>
  Claim C9. \<^verbatim>\<open>Validate\<close> returns an error if and only if one of the listed comparisons
  holds: the stake fraction is below 0 or above 1, a validator or peer count is negative,
  a frequency or the filter size is not positive, or a filter rate is at most 0 or at
  least 1. On every configuration without a NaN that is: it returns nil exactly when the
  fraction lies in [0,1], the counts are not negative, the frequencies and the size are
  positive and the two rates lie in the open interval (0,1). The configuration of
  \<^verbatim>\<open>DefaultGossipConfig\<close> validates with no error.
\<close>

theorem Validate_iff_violated:
  "(Validate c \<noteq> None) = violated c \<and>
   (no_NaN c \<longrightarrow> (Validate c = None) = constraints_hold c) \<and>
   Validate DefaultGossipConfig = None"
proof (intro conjI impI)
  show "(Validate c \<noteq> None) = violated c" by (rule Validate_error_iff)
  show "Validate DefaultGossipConfig = None" by (rule Validate_Default)
  show "(Validate c = None) = constraints_hold c" if "no_NaN c"
    using Validate_error_iff [of c] violated_iff_constraints [OF that] by blast
qed

text \<open>
  A filter size of 0, a stake fraction of 2 and an infinite reset threshold are rejected;
  a stake fraction of exactly 1 is accepted.
\<close>

theorem Validate_iff_violated_witness:
  "Validate (DefaultGossipConfig\<lparr>BloomFilterSize := 0\<rparr>) \<noteq> None \<and>
   Validate (DefaultGossipConfig\<lparr>PushGossipPercentStake := Finite 2\<rparr>) \<noteq> None \<and>
   Validate (DefaultGossipConfig\<lparr>BloomResetThreshold := PosInf\<rparr>) \<noteq> None \<and>
   Validate (DefaultGossipConfig\<lparr>PushGossipPercentStake := Finite 1\<rparr>) = None"
  using Validate_iff_violated [of "DefaultGossipConfig\<lparr>BloomFilterSize := 0\<rparr>"]
        Validate_iff_violated [of "DefaultGossipConfig\<lparr>PushGossipPercentStake := Finite 2\<rparr>"]
        Validate_iff_violated [of "DefaultGossipConfig\<lparr>BloomResetThreshold := PosInf\<rparr>"]
        Validate_iff_violated [of "DefaultGossipConfig\<lparr>PushGossipPercentStake := Finite 1\<rparr>"]
  by (simp add: violated_def constraints_hold_def no_NaN_def in_closed_unit_def in_open_unit_def
      DefaultGossipConfig_def f64_gt_def f64_ge_def Millisecond_def Second_def)

end
